theory Spec2Isabelle
  imports Main "HOL-Library.Word" "HOL-Library.Finite_Map"
begin

section \<open>WSNet2: the room relay of a game node\<close>

text \<open>
  A shallow embedding of the event frames of package \<^verbatim>\<open>binary\<close>, of
  \<^verbatim>\<open>Peer.SendEvents\<close> (server/game/peer.go) and of the room actor
  (server/game/room.go). Go values are modelled as follows: a \<^verbatim>\<open>byte\<close> is an
  \<open>8 word\<close>, a \<^verbatim>\<open>[]byte\<close> a list of them, a \<^verbatim>\<open>uint32\<close> a \<open>32 word\<close>, a
  \<^verbatim>\<open>uint64\<close> a \<open>64 word\<close>; Go's \<^verbatim>\<open>int\<close> (sequence numbers) is \<open>int\<close>; a Go
  \<^verbatim>\<open>map\<close> owned by the room is a finite map; a \<^verbatim>\<open>*Client\<close> is an address into an
  explicit store of client objects; a runtime panic is a value of type \<open>panic\<close>.
\<close>

subsection \<open>Event frames (package binary)\<close>

type_synonym byte = "8 word"
type_synonym bytes = "byte list"
type_synonym EvType = byte

definition regularEvType :: EvType where "regularEvType = 30"
definition responseEvType :: EvType where "responseEvType = 128"

definition EvTypePeerReady :: EvType where "EvTypePeerReady = 1"
definition EvTypePong :: EvType where "EvTypePong = 2"

definition EvTypeJoined :: EvType where "EvTypeJoined = regularEvType + 0"
definition EvTypeLeft :: EvType where "EvTypeLeft = regularEvType + 1"
definition EvTypeRoomProp :: EvType where "EvTypeRoomProp = regularEvType + 2"
definition EvTypeClientProp :: EvType where "EvTypeClientProp = regularEvType + 3"
definition EvTypeMasterSwitched :: EvType where "EvTypeMasterSwitched = regularEvType + 4"
definition EvTypeMessage :: EvType where "EvTypeMessage = regularEvType + 5"

definition EvTypeSucceeded :: EvType where "EvTypeSucceeded = responseEvType + 0"
definition EvTypePermissionDenied :: EvType where "EvTypePermissionDenied = responseEvType + 1"
definition EvTypeTargetNotFound :: EvType where "EvTypeTargetNotFound = responseEvType + 2"

text \<open>The wire values that the \<^verbatim>\<open>const\<close> blocks of the source define.\<close>

definition definedEvTypes :: "EvType list" where
  "definedEvTypes =
     [EvTypePeerReady, EvTypePong,
      EvTypeJoined, EvTypeLeft, EvTypeRoomProp, EvTypeClientProp, EvTypeMasterSwitched,
      EvTypeMessage,
      EvTypeSucceeded, EvTypePermissionDenied, EvTypeTargetNotFound]"

text \<open>
  \<^verbatim>\<open>RegularEvent\<close> and \<^verbatim>\<open>SystemEvent\<close> are the two structs that implement the
  interface \<^verbatim>\<open>Event\<close>; a value of the interface is one or the other.
\<close>

datatype RegularEvent = RegularEvent (etype: EvType) (payload: bytes)

datatype SystemEvent = SystemEvent (etype: EvType) (payload: bytes)

datatype Event = Regular RegularEvent | System SystemEvent

fun Event_Type :: "Event \<Rightarrow> EvType" where
  "Event_Type (Regular ev) = RegularEvent.etype ev"
| "Event_Type (System ev) = SystemEvent.etype ev"

fun Event_Payload :: "Event \<Rightarrow> bytes" where
  "Event_Payload (Regular ev) = RegularEvent.payload ev"
| "Event_Payload (System ev) = SystemEvent.payload ev"

text \<open>
  Modelled from the spec: \<^verbatim>\<open>put32\<close>, \<^verbatim>\<open>get32\<close> and \<^verbatim>\<open>put24\<close> of package binary are
  not among the sources. The spec fixes the frame as "4 bytes BE seqNum" (and a "3-byte BE
  msg seqNum" for response events) and says that integers are big-endian: \<open>put32\<close> writes
  the low 32 bits of its argument, most significant byte first, \<open>get32\<close> reads four bytes
  back as an unsigned number, \<open>put24\<close> writes the low 24 bits.
\<close>

definition put32 :: "int \<Rightarrow> bytes" where
  "put32 val =
     [word_of_int (val div 2 ^ 24), word_of_int (val div 2 ^ 16),
      word_of_int (val div 2 ^ 8), word_of_int val]"

definition get32 :: "bytes \<Rightarrow> int" where
  "get32 buf =
     uint (buf ! 0) * 2 ^ 24 + uint (buf ! 1) * 2 ^ 16 + uint (buf ! 2) * 2 ^ 8 + uint (buf ! 3)"

definition put24 :: "int \<Rightarrow> bytes" where
  "put24 val = [word_of_int (val div 2 ^ 16), word_of_int (val div 2 ^ 8), word_of_int val]"

text \<open>
  \<^verbatim>\<open>(*RegularEvent).Marshal\<close>: a buffer of \<^verbatim>\<open>len(payload)+5\<close> bytes holding the type,
  the sequence number in bytes 1 to 4 and the payload from byte 5 on.
\<close>

definition RegularEvent_Marshal :: "RegularEvent \<Rightarrow> int \<Rightarrow> bytes" where
  "RegularEvent_Marshal ev seqNum =
     RegularEvent.etype ev # put32 seqNum @ RegularEvent.payload ev"

text \<open>\<^verbatim>\<open>(*SystemEvent).Marshal\<close>: the type followed by the payload.\<close>

definition SystemEvent_Marshal :: "SystemEvent \<Rightarrow> bytes" where
  "SystemEvent_Marshal ev = SystemEvent.etype ev # SystemEvent.payload ev"

text \<open>
  \<^verbatim>\<open>UnmarshalEvent\<close> returns \<^verbatim>\<open>(Event, int, error)\<close>; both of its errors are
  "data length not enough" with the length it saw.
\<close>

datatype unmarshal_error = DataLengthNotEnough nat

definition UnmarshalEvent :: "bytes \<Rightarrow> unmarshal_error + Event \<times> int" where
  "UnmarshalEvent data =
     (if length data < 1 then Inl (DataLengthNotEnough (length data))
      else
        let et = data ! 0; data1 = drop 1 data in
        if et < regularEvType then Inr (System (SystemEvent et data1), 0)
        else if length data1 < 4 then Inl (DataLengthNotEnough (length data1))
        else
          let seq = get32 data1; data2 = drop 4 data1 in
          Inr (Regular (RegularEvent et data2), seq))"

subsection \<open>The event buffer and the peer (server/game/peer.go)\<close>

text \<open>
  Modelled from the spec: \<^verbatim>\<open>common.RingBuf\<close> is not among the sources. The spec (4.2)
  describes a ring of events with contiguous sequence numbers; \<open>Read(fromSeq)\<close> returns the
  events with a sequence number above \<open>fromSeq\<close> in order and "fails with TooOld if
  fromSeq+1 < firstBuffered". \<open>first\<close> is the sequence number of the oldest buffered
  event and \<open>items\<close> are the buffered events from that number on. The text of the error
  is not given by the spec; it only ends up in the close frame.
\<close>

datatype RingBufError = TooOld

definition RingBufError_Error :: "RingBufError \<Rightarrow> string" where
  "RingBufError_Error e = ''too old''"

record 'a RingBuf =
  first :: int
  items :: "'a list"

definition RingBuf_Read :: "'a RingBuf \<Rightarrow> int \<Rightarrow> RingBufError + 'a list" where
  "RingBuf_Read b fromSeq =
     (if fromSeq + 1 < first b then Inl TooOld
      else Inr (drop (nat (fromSeq + 1 - first b)) (items b)))"

text \<open>
  The websocket connection belongs to an external library. A frame handed to
  \<^verbatim>\<open>WriteMessage\<close> is a binary message or a close message built by
  \<^verbatim>\<open>FormatCloseMessage\<close> from a close code and a text. The connection records the
  frames it accepted, how many writes were attempted and whether \<^verbatim>\<open>Close\<close> was
  called. Whether a write fails is up to the network: \<open>werr n\<close> is the error of the
  \<open>n\<close>-th write attempted on the connection, if it fails.
\<close>

datatype Frame = BinaryMessage bytes | CloseMessage int string

record Conn =
  written :: "Frame list"
  nwrites :: nat
  connClosed :: bool

definition CloseGoingAway :: int where "CloseGoingAway = 1001"
definition CloseInternalServerErr :: int where "CloseInternalServerErr = 1011"

definition writeMessage :: "(nat \<Rightarrow> string option) \<Rightarrow> Conn \<Rightarrow> Frame \<Rightarrow> Conn \<times> string option" where
  "writeMessage werr c f =
     (case werr (nwrites c) of
        None \<Rightarrow> (c\<lparr>written := written c @ [f], nwrites := Suc (nwrites c)\<rparr>, None)
      | Some e \<Rightarrow> (c\<lparr>nwrites := Suc (nwrites c)\<rparr>, Some e))"

definition formatCloseMessage :: "int \<Rightarrow> string \<Rightarrow> Frame" where
  "formatCloseMessage closeCode text =
     CloseMessage closeCode (if length text > 123 then take 123 text else text)"

text \<open>
  The fields of \<^verbatim>\<open>Peer\<close> that \<^verbatim>\<open>SendEvents\<close> reads and writes. The method runs
  under \<^verbatim>\<open>muWrite\<close>, so it is one atomic step on the peer.
\<close>

record Peer =
  conn :: Conn
  closed :: bool
  evSeqNum :: int

text \<open>
  The loop of \<^verbatim>\<open>SendEvents\<close> over the events read: it returns the connection, the
  last sequence number used and the error of the write that stopped it, if any.
\<close>

fun writeEvents ::
  "(nat \<Rightarrow> string option) \<Rightarrow> Conn \<Rightarrow> int \<Rightarrow> RegularEvent list \<Rightarrow> Conn \<times> int \<times> string option" where
  "writeEvents werr c seqNum [] = (c, seqNum, None)"
| "writeEvents werr c seqNum (ev # evs) =
     (let seqNum' = seqNum + 1;
          buf = RegularEvent_Marshal ev seqNum';
          (c', err) = writeMessage werr c (BinaryMessage buf)
      in case err of
           Some e \<Rightarrow> (c', seqNum', Some e)
         | None \<Rightarrow> writeEvents werr c' seqNum' evs)"

definition SendEvents ::
  "(nat \<Rightarrow> string option) \<Rightarrow> Peer \<Rightarrow> RegularEvent RingBuf \<Rightarrow> Peer \<times> RingBufError option" where
  "SendEvents werr p evbuf =
     (if closed p then (p, None)
      else
        case RingBuf_Read evbuf (evSeqNum p) of
          Inl err \<Rightarrow>
            let (c1, _) = writeMessage werr (conn p)
                            (formatCloseMessage CloseGoingAway (RingBufError_Error err))
            in (p\<lparr>conn := c1\<lparr>connClosed := True\<rparr>, closed := True\<rparr>, Some err)
        | Inr evs \<Rightarrow>
            (case writeEvents werr (conn p) (evSeqNum p) evs of
               (c1, seqNum, Some e) \<Rightarrow>
                 let (c2, _) = writeMessage werr c1 (formatCloseMessage CloseInternalServerErr e)
                 in (p\<lparr>conn := c2\<lparr>connClosed := True\<rparr>, closed := True\<rparr>, None)
             | (c1, seqNum, None) \<Rightarrow> (p\<lparr>conn := c1, evSeqNum := seqNum\<rparr>, None)))"

text \<open>
  For stating what was written: the binary frames of a list of events numbered from
  \<open>seqNum + 1\<close> on.
\<close>

fun eventFrames :: "int \<Rightarrow> RegularEvent list \<Rightarrow> Frame list" where
  "eventFrames seqNum [] = []"
| "eventFrames seqNum (ev # evs) =
     BinaryMessage (RegularEvent_Marshal ev (seqNum + 1)) # eventFrames (seqNum + 1) evs"

subsection \<open>Data of the room (server/game/room.go)\<close>

type_synonym ClientID = string
type_synonym RoomDict = "(string, bytes) fmap"
type_synonym cref = nat

text \<open>
  \<^verbatim>\<open>binary.Dict\<close> is \<^verbatim>\<open>map[string][]byte\<close>. A dict that the room owns is a finite
  map. A dict that arrives in a message is only ever iterated by \<^verbatim>\<open>range\<close>: it is the
  list of its entries in the order the iteration visits them (any order, keys distinct).
\<close>

type_synonym DictEntries = "(string \<times> bytes) list"

text \<open>The fields of \<^verbatim>\<open>pb.ClientInfo\<close> and \<^verbatim>\<open>pb.RoomInfo\<close> that room.go uses.\<close>

record ClientInfo =
  Id :: string
  Props :: bytes

record RoomInfo =
  Visible :: bool
  Joinable :: bool
  Watchable :: bool
  SearchGroup :: "32 word"
  MaxPlayers :: "32 word"
  Players :: "32 word"
  Watchers :: "32 word"
  PublicProps :: bytes
  PrivateProps :: bytes

text \<open>
  Modelled from the spec: \<^verbatim>\<open>Client\<close> (client.go) is not among the sources. The record
  has the fields that room.go reads and writes (\<^verbatim>\<open>ClientInfo\<close>, \<^verbatim>\<open>isPlayer\<close>,
  \<^verbatim>\<open>props\<close>, \<^verbatim>\<open>nodeCount\<close>) and, for each way room.go hands something to a client,
  the sequence of what was handed over: \<open>evbuf\<close> for \<^verbatim>\<open>Send\<close> ("append to buffer, wake
  the send loop; non-blocking"), \<open>sysevs\<close> for \<^verbatim>\<open>SendSystemEvent\<close>, \<open>newDeadline\<close>
  for the channel of that name, \<open>removed\<close> for the cause of \<^verbatim>\<open>Removed\<close> ("terminal",
  "idempotent").
\<close>

record Client =
  ClientInfo :: ClientInfo
  isPlayer :: bool
  props :: RoomDict
  nodeCount :: "32 word"
  evbuf :: "RegularEvent list"
  sysevs :: "SystemEvent list"
  newDeadline :: "int list"
  removed :: "string option"

definition Client_ID :: "Client \<Rightarrow> ClientID" where
  "Client_ID c = Id (ClientInfo c)"

definition Client_Send :: "RegularEvent \<Rightarrow> Client \<Rightarrow> Client" where
  "Client_Send ev c = c\<lparr>evbuf := evbuf c @ [ev]\<rparr>"

definition Client_SendSystemEvent :: "SystemEvent \<Rightarrow> Client \<Rightarrow> Client" where
  "Client_SendSystemEvent ev c = c\<lparr>sysevs := sysevs c @ [ev]\<rparr>"

definition Client_Removed :: "string \<Rightarrow> Client \<Rightarrow> Client" where
  "Client_Removed cause c = (if removed c = None then c\<lparr>removed := Some cause\<rparr> else c)"

text \<open>
  What room.go uses from packages that are not among the sources is a parameter of the
  model: the typed-value codec of package binary, \<^verbatim>\<open>common.InitProps\<close> (which decodes a
  property blob and returns the dict with the blob to store, or fails) and the node count
  a new client starts with.
\<close>

record Env =
  MarshalStr8 :: "string \<Rightarrow> bytes"
  MarshalStrings :: "string list \<Rightarrow> bytes"
  MarshalULong :: "64 word \<Rightarrow> bytes"
  MarshalUInt :: "int \<Rightarrow> bytes"
  MarshalDict :: "RoomDict \<Rightarrow> bytes"
  UnmarshalULong :: "bytes \<Rightarrow> 64 word option"
  InitProps :: "bytes \<Rightarrow> (RoomDict \<times> bytes) option"
  initNodeCount :: "ClientInfo \<Rightarrow> 32 word"

datatype codes = InvalidArgument | FailedPrecondition | AlreadyExists | ResourceExhausted

text \<open>
  Modelled from the spec: \<^verbatim>\<open>NewPlayer\<close> and \<^verbatim>\<open>NewWatcher\<close> (client.go) are not among
  the sources. The spec has a client identified by the id of its \<^verbatim>\<open>ClientInfo\<close>, a flag
  that tells players from watchers, a decoded props dict, and \<open>InvalidArgument\<close> as the
  error for props that do not decode.
\<close>

definition newClient :: "Env \<Rightarrow> ClientInfo \<Rightarrow> string \<Rightarrow> bool \<Rightarrow> codes + Client" where
  "newClient env info macKey isPl =
     (case InitProps env (Props info) of
        None \<Rightarrow> Inl InvalidArgument
      | Some (d, iProps) \<Rightarrow>
          Inr \<lparr>ClientInfo = info\<lparr>Props := iProps\<rparr>, isPlayer = isPl, props = d,
               nodeCount = initNodeCount env info, evbuf = [], sysevs = [], newDeadline = [],
               removed = None\<rparr>)"

definition NewPlayer :: "Env \<Rightarrow> ClientInfo \<Rightarrow> string \<Rightarrow> codes + Client" where
  "NewPlayer env info macKey = newClient env info macKey True"

definition NewWatcher :: "Env \<Rightarrow> ClientInfo \<Rightarrow> string \<Rightarrow> codes + Client" where
  "NewWatcher env info macKey = newClient env info macKey False"

text \<open>
  Messages. The message types (msg.go) are not among the sources; each constructor carries
  the fields that its handler in room.go reads. A message sent by a client has the sender
  (a \<^verbatim>\<open>*Client\<close>), the client's sequence number and the raw payload.
\<close>

record RegularMsg =
  Sender :: cref
  SequenceNum :: int
  Payload :: bytes

record MsgRoomPropPayload =
  Visible :: bool
  Joinable :: bool
  Watchable :: bool
  SearchGroup :: "32 word"
  MaxPlayer :: "32 word"
  ClientDeadline :: "32 word"
  PublicProps :: DictEntries
  PrivateProps :: DictEntries
  EventPayload :: bytes

datatype Msg =
    MsgCreate ClientInfo string
  | MsgJoin ClientInfo string
  | MsgWatch ClientInfo string
  | MsgPing cref "64 word"
  | MsgNodeCount cref "32 word"
  | MsgLeave cref string
  | MsgRoomProp RegularMsg MsgRoomPropPayload
  | MsgClientProp RegularMsg DictEntries
  | MsgTargets RegularMsg "string list" bytes
  | MsgToMaster RegularMsg bytes
  | MsgBroadcast RegularMsg bytes
  | MsgSwitchMaster RegularMsg ClientID
  | MsgKick RegularMsg ClientID string
  | MsgAdminKick ClientID
  | MsgGetRoomInfo
  | MsgClientError cref string
  | MsgClientTimeout cref

text \<open>
  What a handler sends on the reply channel of a control-plane message
  (\<open>ReplyPlayerNotFound\<close> and \<open>ReplyNil\<close> are the error and the nil that
  \<^verbatim>\<open>msgAdminKick\<close> sends). The slice of
  client infos in \<^verbatim>\<open>JoinedInfo\<close> is filled by ranging over the map of players, in no
  determined order: it is kept as the finite set of its elements.
\<close>

datatype JoinedInfo = JoinedInfo RoomInfo "ClientInfo fset" cref ClientID int

datatype GetRoomInfoRes = GetRoomInfoRes RoomInfo "ClientInfo list" string "(string, 64 word) fmap"

datatype Reply =
    ReplyErr codes
  | ReplyJoined JoinedInfo
  | ReplyPlayerNotFound
  | ReplyNil
  | ReplyRoomInfo GetRoomInfoRes

datatype panic = NilDereference | IndexOutOfRange | CloseOfClosedChannel | NilTypeAssertion

text \<open>
  The state of a room. \<open>RoomInfo\<close> is the embedded \<^verbatim>\<open>*pb.RoomInfo\<close>, which the room
  alone writes. \<open>doneClosed\<close> says whether the channel \<^verbatim>\<open>done\<close> has been closed,
  \<open>chRoomInfo\<close> whether the one-slot channel of that name holds a token. \<open>master\<close> is
  \<open>None\<close> for the nil pointer. \<open>heap\<close> holds the client objects, \<open>nextRef\<close> is the
  next unused address, \<open>replies\<close> are the values sent on reply channels so far.
  \<^verbatim>\<open>deadline\<close> is a \<^verbatim>\<open>time.Duration\<close>, in nanoseconds. Loggers, metrics, the
  player log of the repository and the mutexes are left out.
\<close>

record Room =
  RoomInfo :: RoomInfo
  deadline :: int
  publicProps :: RoomDict
  privateProps :: RoomDict
  doneClosed :: bool
  players :: "(ClientID, cref) fmap"
  master :: "cref option"
  masterOrder :: "ClientID list"
  watchers :: "(ClientID, cref) fmap"
  lastMsg :: RoomDict
  chRoomInfo :: bool
  lastRoomInfo :: RoomInfo
  heap :: "cref \<Rightarrow> Client"
  nextRef :: cref
  replies :: "Reply list"

subsection \<open>Event constructors (package binary)\<close>

definition NewEvPong :: "Env \<Rightarrow> 64 word \<Rightarrow> 32 word \<Rightarrow> RoomDict \<Rightarrow> SystemEvent" where
  "NewEvPong env pingtime nwatchers lastmsg =
     SystemEvent EvTypePong
       (MarshalULong env pingtime @ MarshalUInt env (uint nwatchers) @ MarshalDict env lastmsg)"

definition NewEvJoined :: "Env \<Rightarrow> ClientInfo \<Rightarrow> RegularEvent" where
  "NewEvJoined env cli = RegularEvent EvTypeJoined (MarshalStr8 env (Id cli) @ Props cli)"

text \<open>
  room.go calls \<^verbatim>\<open>NewEvLeft\<close> with the cause as a third argument; the \<^verbatim>\<open>NewEvLeft\<close>
  among the sources takes the two ids only. The payload is the one of the source, which
  does not carry the cause.
\<close>

definition NewEvLeft :: "Env \<Rightarrow> string \<Rightarrow> string \<Rightarrow> string \<Rightarrow> RegularEvent" where
  "NewEvLeft env cliId masterId cause =
     RegularEvent EvTypeLeft (MarshalStr8 env cliId @ MarshalStr8 env masterId)"

text \<open>
  Modelled from the spec: \<^verbatim>\<open>NewEvRejoined\<close> and its type are not among the sources.
  The spec lists \<open>Rejoined\<close> after \<open>Message\<close> in the types "contiguous from 30"; the
  payload is taken to be that of \<open>EvJoined\<close>.
\<close>

definition EvTypeRejoined :: EvType where "EvTypeRejoined = regularEvType + 6"

definition NewEvRejoined :: "Env \<Rightarrow> ClientInfo \<Rightarrow> RegularEvent" where
  "NewEvRejoined env cli = RegularEvent EvTypeRejoined (MarshalStr8 env (Id cli) @ Props cli)"

definition NewEvRoomProp :: "string \<Rightarrow> MsgRoomPropPayload \<Rightarrow> RegularEvent" where
  "NewEvRoomProp cliId rpp = RegularEvent EvTypeRoomProp (EventPayload rpp)"

definition NewEvClientProp :: "Env \<Rightarrow> string \<Rightarrow> bytes \<Rightarrow> RegularEvent" where
  "NewEvClientProp env cliId prps = RegularEvent EvTypeClientProp (MarshalStr8 env cliId @ prps)"

definition NewEvMasterSwitched :: "Env \<Rightarrow> string \<Rightarrow> string \<Rightarrow> RegularEvent" where
  "NewEvMasterSwitched env cliId masterId =
     RegularEvent EvTypeMasterSwitched (MarshalStr8 env masterId)"

definition NewEvMessage :: "Env \<Rightarrow> string \<Rightarrow> bytes \<Rightarrow> RegularEvent" where
  "NewEvMessage env cliId body = RegularEvent EvTypeMessage (MarshalStr8 env cliId @ body)"

definition NewEvSucceeded :: "RegularMsg \<Rightarrow> RegularEvent" where
  "NewEvSucceeded msg = RegularEvent EvTypeSucceeded (put24 (SequenceNum msg))"

definition NewEvPermissionDenied :: "RegularMsg \<Rightarrow> RegularEvent" where
  "NewEvPermissionDenied msg =
     RegularEvent EvTypePermissionDenied (put24 (SequenceNum msg) @ Payload msg)"

definition NewEvTargetNotFound :: "Env \<Rightarrow> RegularMsg \<Rightarrow> string list \<Rightarrow> RegularEvent" where
  "NewEvTargetNotFound env msg cliIds =
     RegularEvent EvTypeTargetNotFound
       (put24 (SequenceNum msg) @ MarshalStrings env cliIds @ Payload msg)"

subsection \<open>Operations of the room\<close>

definition lenMap :: "('k, 'v) fmap \<Rightarrow> nat" where
  "lenMap m = fcard (fmdom m)"

definition reply :: "Reply \<Rightarrow> Room \<Rightarrow> Room" where
  "reply x r = r\<lparr>replies := replies r @ [x]\<rparr>"

text \<open>
  \<^verbatim>\<open>writeLastMsg\<close>; \<open>now\<close> is \<^verbatim>\<open>uint64(time.Now().UnixNano())\<close>.
\<close>

definition writeLastMsg :: "Env \<Rightarrow> 64 word \<Rightarrow> ClientID \<Rightarrow> Room \<Rightarrow> Room" where
  "writeLastMsg env now cid r =
     (let millisec = now div 1000000
      in r\<lparr>lastMsg := fmupd cid (MarshalULong env millisec) (lastMsg r)\<rparr>)"

definition removeLastMsg :: "ClientID \<Rightarrow> Room \<Rightarrow> Room" where
  "removeLastMsg cid r = r\<lparr>lastMsg := fmdrop cid (lastMsg r)\<rparr>"

definition updateLastMsg :: "Env \<Rightarrow> 64 word \<Rightarrow> ClientID \<Rightarrow> Room \<Rightarrow> Room" where
  "updateLastMsg env now cid r =
     (if cid |\<in>| fmdom (lastMsg r) then writeLastMsg env now cid r else r)"

definition updateRoomInfo :: "Room \<Rightarrow> Room" where
  "updateRoomInfo r = r\<lparr>lastRoomInfo := RoomInfo r, chRoomInfo := True\<rparr>"

text \<open>
  \<^verbatim>\<open>sendTo\<close> hands the event to the client. When \<^verbatim>\<open>Send\<close> returns an error, the
  source starts a goroutine that takes the write lock and calls \<^verbatim>\<open>removeClient\<close>; it
  runs after the handler has released its lock. That removal is a transition of its own
  (\<open>AsyncRemove\<close> below), enabled for any client at any time, the condition under which
  \<^verbatim>\<open>Send\<close> fails being outside the sources.
\<close>

definition sendTo :: "cref \<Rightarrow> RegularEvent \<Rightarrow> Room \<Rightarrow> Room" where
  "sendTo c ev r = r\<lparr>heap := (heap r)(c := Client_Send ev (heap r c))\<rparr>"

text \<open>
  A \<^verbatim>\<open>range\<close> over a map of clients that does the same to each of them: the clients
  that are values of the map are changed, the others are not.
\<close>

definition forClients ::
  "(ClientID, cref) fmap \<Rightarrow> (Client \<Rightarrow> Client) \<Rightarrow> (cref \<Rightarrow> Client) \<Rightarrow> (cref \<Rightarrow> Client)" where
  "forClients m f h =
     (\<lambda>a. if (\<exists>k |\<in>| fmdom m. fmlookup m k = Some a) then f (h a) else h a)"

definition broadcast :: "RegularEvent \<Rightarrow> Room \<Rightarrow> Room" where
  "broadcast ev r =
     (let r1 = r\<lparr>heap := forClients (players r) (Client_Send ev) (heap r)\<rparr>
      in r1\<lparr>heap := forClients (watchers r1) (Client_Send ev) (heap r1)\<rparr>)"

text \<open>
  \<^verbatim>\<open>removePlayer\<close>. The loop over \<^verbatim>\<open>masterOrder\<close> cuts out the first occurrence of
  the id and stops, which is \<open>remove1\<close>. Closing a closed channel, indexing an empty
  slice and calling \<^verbatim>\<open>ID()\<close> on a nil master panic.
\<close>

definition removePlayer :: "Env \<Rightarrow> cref \<Rightarrow> string \<Rightarrow> Room \<Rightarrow> panic + Room" where
  "removePlayer env c cause r =
     (let cid = Client_ID (heap r c) in
      if fmlookup (players r) cid \<noteq> Some c then Inr r
      else
        let r1 = r\<lparr>players := fmdrop cid (players r)\<rparr>;
            r2 = r1\<lparr>masterOrder := remove1 cid (masterOrder r1)\<rparr>;
            r3 = r2\<lparr>heap := (heap r2)(c := Client_Removed cause (heap r2 c))\<rparr>
        in
          if lenMap (players r3) = 0 then
            (if doneClosed r3 then Inl CloseOfClosedChannel else Inr (r3\<lparr>doneClosed := True\<rparr>))
          else
            case master r3 of
              None \<Rightarrow> Inl NilDereference
            | Some m \<Rightarrow>
                if Client_ID (heap r3 m) = cid \<and> masterOrder r3 = [] then Inl IndexOutOfRange
                else
                  let r4 = (if Client_ID (heap r3 m) = cid
                            then r3\<lparr>master := fmlookup (players r3) (masterOrder r3 ! 0)\<rparr>
                            else r3)
                  in
                    case master r4 of
                      None \<Rightarrow> Inl NilDereference
                    | Some m' \<Rightarrow>
                        let r5 = r4\<lparr>RoomInfo := (RoomInfo r4)\<lparr>Players := of_nat (lenMap (players r4))\<rparr>\<rparr>;
                            r6 = updateRoomInfo r5;
                            r7 = broadcast (NewEvLeft env cid (Id (ClientInfo (heap r6 m'))) cause) r6
                        in Inr (removeLastMsg cid r7))"

definition removeWatcher :: "cref \<Rightarrow> string \<Rightarrow> Room \<Rightarrow> Room" where
  "removeWatcher c cause r =
     (let cid = Client_ID (heap r c) in
      if fmlookup (watchers r) cid \<noteq> Some c then r
      else
        let r1 = r\<lparr>watchers := fmdrop cid (watchers r)\<rparr>;
            r2 = r1\<lparr>RoomInfo := (RoomInfo r1)\<lparr>Watchers := Watchers (RoomInfo r1) - nodeCount (heap r1 c)\<rparr>\<rparr>;
            r3 = updateRoomInfo r2
        in r3\<lparr>heap := (heap r3)(c := Client_Removed cause (heap r3 c))\<rparr>)"

definition removeClient :: "Env \<Rightarrow> cref \<Rightarrow> string \<Rightarrow> Room \<Rightarrow> panic + Room" where
  "removeClient env c cause r =
     (if isPlayer (heap r c) then removePlayer env c cause r
      else Inr (removeWatcher c cause r))"

text \<open>Storing a new client object: \<open>nextRef\<close> is its address.\<close>

definition alloc :: "Client \<Rightarrow> Room \<Rightarrow> Room" where
  "alloc c r = r\<lparr>heap := (heap r)(nextRef r := c), nextRef := Suc (nextRef r)\<rparr>"

definition playerInfos :: "Room \<Rightarrow> ClientInfo fset" where
  "playerInfos r = (\<lambda>c. ClientInfo (heap r c)) |`| fmran (players r)"

definition msgCreate :: "Env \<Rightarrow> 64 word \<Rightarrow> ClientInfo \<Rightarrow> string \<Rightarrow> Room \<Rightarrow> panic + Room" where
  "msgCreate env now info macKey r =
     (case NewPlayer env info macKey of
        Inl err \<Rightarrow> Inr (reply (ReplyErr err) r)
      | Inr newc \<Rightarrow>
          let mst = nextRef r;
              r1 = alloc newc r;
              r2 = r1\<lparr>master := Some mst\<rparr>;
              r3 = r2\<lparr>players := fmupd (Client_ID newc) mst (players r2)\<rparr>;
              r4 = r3\<lparr>masterOrder := masterOrder r3 @ [Client_ID newc]\<rparr>;
              rinfo = RoomInfo r4;
              cinfo = ClientInfo newc;
              r5 = reply (ReplyJoined (JoinedInfo rinfo {|cinfo|} mst (Client_ID newc) (deadline r4))) r4;
              r6 = broadcast (NewEvJoined env cinfo) r5
          in Inr (writeLastMsg env now (Client_ID newc) r6))"

text \<open>
  \<^verbatim>\<open>msgJoin\<close>. The sender id of a \<^verbatim>\<open>MsgJoin\<close> is the id of its client info.
\<close>

definition msgJoin :: "Env \<Rightarrow> 64 word \<Rightarrow> ClientInfo \<Rightarrow> string \<Rightarrow> Room \<Rightarrow> panic + Room" where
  "msgJoin env now info macKey r =
     (if \<not> RoomInfo.Joinable (RoomInfo r) then Inr (reply (ReplyErr FailedPrecondition) r)
      else
        let oldp = fmlookup (players r) (Id info);
            rejoin = (oldp \<noteq> None)
        in
          if fmlookup (watchers r) (Id info) \<noteq> None then Inr (reply (ReplyErr AlreadyExists) r)
          else if \<not> rejoin \<and> MaxPlayers (RoomInfo r) \<le> of_nat (lenMap (players r))
          then Inr (reply (ReplyErr ResourceExhausted) r)
          else
            case NewPlayer env info macKey of
              Inl err \<Rightarrow> Inr (reply (ReplyErr err) r)
            | Inr newc \<Rightarrow>
                let client = nextRef r;
                    r1 = alloc newc r;
                    r2 = r1\<lparr>players := fmupd (Client_ID newc) client (players r1)\<rparr>;
                    r3 = (case oldp of
                            Some old \<Rightarrow>
                              let q1 = r2\<lparr>heap := (heap r2)
                                         (old := Client_Removed ''client rejoined as a new client''
                                                   (heap r2 old))\<rparr>
                              in if master q1 = Some old then q1\<lparr>master := Some client\<rparr> else q1
                          | None \<Rightarrow>
                              let q1 = r2\<lparr>masterOrder := masterOrder r2 @ [Client_ID newc]\<rparr>;
                                  q2 = q1\<lparr>RoomInfo := (RoomInfo q1)
                                         \<lparr>Players := of_nat (lenMap (players q1))\<rparr>\<rparr>
                              in updateRoomInfo q2)
                in
                  case master r3 of
                    None \<Rightarrow> Inl NilDereference
                  | Some m \<Rightarrow>
                      let rinfo = RoomInfo r3;
                          cinfo = ClientInfo newc;
                          r4 = reply (ReplyJoined (JoinedInfo rinfo (playerInfos r3) client
                                        (Client_ID (heap r3 m)) (deadline r3))) r3;
                          r5 = (if rejoin then broadcast (NewEvRejoined env cinfo) r4
                                else broadcast (NewEvJoined env cinfo) r4)
                      in Inr (writeLastMsg env now (Client_ID newc) r5))"

definition msgWatch :: "Env \<Rightarrow> ClientInfo \<Rightarrow> string \<Rightarrow> Room \<Rightarrow> panic + Room" where
  "msgWatch env info macKey r =
     (if \<not> RoomInfo.Watchable (RoomInfo r) then Inr (reply (ReplyErr FailedPrecondition) r)
      else if fmlookup (players r) (Id info) \<noteq> None then Inr (reply (ReplyErr AlreadyExists) r)
      else
        case NewWatcher env info macKey of
          Inl err \<Rightarrow> Inr (reply (ReplyErr err) r)
        | Inr newc \<Rightarrow>
            let client = nextRef r;
                oldc = fmlookup (watchers r) (Client_ID newc);
                r1 = alloc newc r;
                r2 = r1\<lparr>watchers := fmupd (Client_ID newc) client (watchers r1)\<rparr>;
                r3 = (case oldc of
                        Some old \<Rightarrow>
                          let q1 = r2\<lparr>heap := (heap r2)
                                     (old := Client_Removed ''client rejoined as a new client''
                                               (heap r2 old))\<rparr>
                          in q1\<lparr>RoomInfo := (RoomInfo q1)
                                 \<lparr>Watchers := Watchers (RoomInfo q1) - nodeCount (heap q1 old)\<rparr>\<rparr>
                      | None \<Rightarrow> r2);
                r4 = r3\<lparr>RoomInfo := (RoomInfo r3)
                       \<lparr>Watchers := Watchers (RoomInfo r3) + nodeCount (heap r3 client)\<rparr>\<rparr>;
                r5 = updateRoomInfo r4
            in
              case master r5 of
                None \<Rightarrow> Inl NilDereference
              | Some m \<Rightarrow>
                  Inr (reply (ReplyJoined (JoinedInfo (RoomInfo r5) (playerInfos r5) client
                                (Client_ID (heap r5 m)) (deadline r5))) r5))"

text \<open>
  The check that opens the handlers of client messages: the sender must be the client
  registered under its id, among the players or the watchers.
\<close>

definition senderPresent :: "cref \<Rightarrow> Room \<Rightarrow> bool" where
  "senderPresent s r =
     (if isPlayer (heap r s) then fmlookup (players r) (Client_ID (heap r s)) = Some s
      else fmlookup (watchers r) (Client_ID (heap r s)) = Some s)"

definition msgPing :: "Env \<Rightarrow> cref \<Rightarrow> 64 word \<Rightarrow> Room \<Rightarrow> panic + Room" where
  "msgPing env s timestamp r =
     (if \<not> senderPresent s r then Inr r
      else
        let ev = NewEvPong env timestamp (Watchers (RoomInfo r)) (lastMsg r)
        in Inr (r\<lparr>heap := (heap r)(s := Client_SendSystemEvent ev (heap r s))\<rparr>))"

definition msgNodeCount :: "cref \<Rightarrow> 32 word \<Rightarrow> Room \<Rightarrow> panic + Room" where
  "msgNodeCount c cnt r =
     (if fmlookup (watchers r) (Client_ID (heap r c)) \<noteq> Some c then Inr r
      else if nodeCount (heap r c) = cnt then Inr r
      else
        let r1 = r\<lparr>RoomInfo := (RoomInfo r)
                   \<lparr>Watchers := (Watchers (RoomInfo r) - nodeCount (heap r c)) + cnt\<rparr>\<rparr>;
            r2 = r1\<lparr>heap := (heap r1)(c := (heap r1 c)\<lparr>nodeCount := cnt\<rparr>)\<rparr>
        in Inr (updateRoomInfo r2))"

definition msgLeave :: "Env \<Rightarrow> cref \<Rightarrow> string \<Rightarrow> Room \<Rightarrow> panic + Room" where
  "msgLeave env s message r = removeClient env s message r"

text \<open>
  The loop that merges the entries of a message's dict into a dict of the room or of a
  client: an entry with a value of length 0 for a key that is present deletes the key,
  any other entry stores its value.
\<close>

definition mergeEntry :: "string \<times> bytes \<Rightarrow> RoomDict \<Rightarrow> RoomDict" where
  "mergeEntry kv d =
     (if fst kv |\<in>| fmdom d \<and> length (snd kv) = 0 then fmdrop (fst kv) d
      else fmupd (fst kv) (snd kv) d)"

definition mergeEntries :: "DictEntries \<Rightarrow> RoomDict \<Rightarrow> RoomDict" where
  "mergeEntries kvs d = fold mergeEntry kvs d"

definition Second :: int where "Second = 1000000000"

definition msgRoomProp :: "Env \<Rightarrow> RegularMsg \<Rightarrow> MsgRoomPropPayload \<Rightarrow> Room \<Rightarrow> panic + Room" where
  "msgRoomProp env msg pl r =
     (if Some (Sender msg) \<noteq> master r then
        (case master r of
           None \<Rightarrow> Inl NilDereference
         | Some m \<Rightarrow> Inr (sendTo (Sender msg) (NewEvPermissionDenied msg) r))
      else
        let r1 = r\<lparr>RoomInfo := (RoomInfo r)
                   \<lparr>RoomInfo.Visible := MsgRoomPropPayload.Visible pl,
                    RoomInfo.Joinable := MsgRoomPropPayload.Joinable pl,
                    RoomInfo.Watchable := MsgRoomPropPayload.Watchable pl,
                    RoomInfo.SearchGroup := MsgRoomPropPayload.SearchGroup pl,
                    MaxPlayers := MaxPlayer pl\<rparr>\<rparr>;
            r2 = (if length (MsgRoomPropPayload.PublicProps pl) > 0 then
                    let q = r1\<lparr>publicProps :=
                                 mergeEntries (MsgRoomPropPayload.PublicProps pl) (publicProps r1)\<rparr>
                    in q\<lparr>RoomInfo := (RoomInfo q)
                           \<lparr>RoomInfo.PublicProps := MarshalDict env (publicProps q)\<rparr>\<rparr>
                  else r1);
            r3 = (if length (MsgRoomPropPayload.PrivateProps pl) > 0 then
                    let q = r2\<lparr>privateProps :=
                                 mergeEntries (MsgRoomPropPayload.PrivateProps pl) (privateProps r2)\<rparr>
                    in q\<lparr>RoomInfo := (RoomInfo q)
                           \<lparr>RoomInfo.PrivateProps := MarshalDict env (privateProps q)\<rparr>\<rparr>
                  else r2);
            r4 = updateRoomInfo r3;
            r5 = (if ClientDeadline pl \<noteq> 0 then
                    let dl = uint (ClientDeadline pl) * Second
                    in if dl \<noteq> deadline r4 then
                         let q = r4\<lparr>deadline := dl\<rparr>
                         in q\<lparr>heap := forClients (players q)
                                        (\<lambda>c. c\<lparr>newDeadline := newDeadline c @ [dl]\<rparr>) (heap q)\<rparr>
                       else r4
                  else r4);
            r6 = sendTo (Sender msg) (NewEvSucceeded msg) r5
        in Inr (broadcast (NewEvRoomProp (Id (ClientInfo (heap r6 (Sender msg)))) pl) r6))"

definition msgClientProp :: "Env \<Rightarrow> RegularMsg \<Rightarrow> DictEntries \<Rightarrow> Room \<Rightarrow> panic + Room" where
  "msgClientProp env msg prps r =
     (let s = Sender msg in
      if \<not> isPlayer (heap r s) then Inr (sendTo s (NewEvPermissionDenied msg) r)
      else if fmlookup (players r) (Client_ID (heap r s)) \<noteq> Some s then Inr r
      else
        let r1 = (if length prps > 0 then
                    let c1 = (heap r s)\<lparr>props := mergeEntries prps (props (heap r s))\<rparr>;
                        c2 = c1\<lparr>ClientInfo := (ClientInfo c1)\<lparr>Props := MarshalDict env (props c1)\<rparr>\<rparr>
                    in r\<lparr>heap := (heap r)(s := c2)\<rparr>
                  else r);
            r2 = sendTo s (NewEvSucceeded msg) r1
        in Inr (broadcast (NewEvClientProp env (Id (ClientInfo (heap r2 s))) (Payload msg)) r2))"

text \<open>
  The loop of \<^verbatim>\<open>msgTargets\<close> over the target ids: the event goes to each target that is
  a player, the ids that are not are collected in order.
\<close>

fun sendTargets :: "RegularEvent \<Rightarrow> string list \<Rightarrow> string list \<Rightarrow> Room \<Rightarrow> string list \<times> Room" where
  "sendTargets ev [] absent r = (absent, r)"
| "sendTargets ev (t # ts) absent r =
     (case fmlookup (players r) t of
        None \<Rightarrow> sendTargets ev ts (absent @ [t]) r
      | Some c \<Rightarrow> sendTargets ev ts absent (sendTo c ev r))"

definition msgTargets :: "Env \<Rightarrow> RegularMsg \<Rightarrow> string list \<Rightarrow> bytes \<Rightarrow> Room \<Rightarrow> panic + Room" where
  "msgTargets env msg targets data r =
     (let s = Sender msg in
      if \<not> senderPresent s r then Inr r
      else
        let ev = NewEvMessage env (Id (ClientInfo (heap r s))) data;
            (absent, r1) = sendTargets ev targets [] r
        in if length absent > 0 then Inr (sendTo s (NewEvTargetNotFound env msg absent) r1)
           else Inr r1)"

definition msgToMaster :: "Env \<Rightarrow> RegularMsg \<Rightarrow> bytes \<Rightarrow> Room \<Rightarrow> panic + Room" where
  "msgToMaster env msg data r =
     (let s = Sender msg in
      if \<not> senderPresent s r then Inr r
      else
        case master r of
          None \<Rightarrow> Inl NilDereference
        | Some m \<Rightarrow> Inr (sendTo m (NewEvMessage env (Id (ClientInfo (heap r s))) data) r))"

definition msgBroadcast :: "Env \<Rightarrow> RegularMsg \<Rightarrow> bytes \<Rightarrow> Room \<Rightarrow> panic + Room" where
  "msgBroadcast env msg data r =
     (let s = Sender msg in
      if \<not> senderPresent s r then Inr r
      else Inr (broadcast (NewEvMessage env (Id (ClientInfo (heap r s))) data) r))"

text \<open>
  \<^verbatim>\<open>msgSwitchMaster\<close>. The branch for a sender that is not the master sends
  \<^verbatim>\<open>EvPermissionDenied\<close> and, having no \<^verbatim>\<open>return\<close>, goes on with the lookup of the
  target.
\<close>

definition msgSwitchMaster :: "Env \<Rightarrow> RegularMsg \<Rightarrow> ClientID \<Rightarrow> Room \<Rightarrow> panic + Room" where
  "msgSwitchMaster env msg tgt r =
     (let s = Sender msg in
      if Some s \<noteq> master r \<and> master r = None then Inl NilDereference
      else
        let r1 = (if Some s \<noteq> master r then sendTo s (NewEvPermissionDenied msg) r else r)
        in
          case fmlookup (players r1) tgt of
            None \<Rightarrow> Inr (sendTo s (NewEvTargetNotFound env msg [tgt]) r1)
          | Some target \<Rightarrow>
              let r2 = r1\<lparr>master := Some target\<rparr>;
                  r3 = sendTo s (NewEvSucceeded msg) r2
              in Inr (broadcast (NewEvMasterSwitched env (Id (ClientInfo (heap r3 s)))
                                   (Id (ClientInfo (heap r3 target)))) r3))"

definition msgKick :: "Env \<Rightarrow> RegularMsg \<Rightarrow> ClientID \<Rightarrow> string \<Rightarrow> Room \<Rightarrow> panic + Room" where
  "msgKick env msg tgt message r =
     (let s = Sender msg in
      if Some s \<noteq> master r then
        (case master r of
           None \<Rightarrow> Inl NilDereference
         | Some m \<Rightarrow> Inr (sendTo s (NewEvPermissionDenied msg) r))
      else
        case fmlookup (players r) tgt of
          None \<Rightarrow> Inr (sendTo s (NewEvTargetNotFound env msg [tgt]) r)
        | Some target \<Rightarrow>
            removeClient env target message (sendTo s (NewEvSucceeded msg) r))"

definition msgAdminKick :: "Env \<Rightarrow> ClientID \<Rightarrow> Room \<Rightarrow> panic + Room" where
  "msgAdminKick env tgt r =
     (case fmlookup (players r) tgt of
        None \<Rightarrow> Inr (reply ReplyPlayerNotFound r)
      | Some target \<Rightarrow>
          (case removeClient env target ''kicked by admin'' r of
             Inl p \<Rightarrow> Inl p
           | Inr r1 \<Rightarrow> Inr (reply ReplyNil r1)))"

text \<open>
  \<^verbatim>\<open>msgGetRoomInfo\<close>. A player id of \<^verbatim>\<open>masterOrder\<close> that is not in \<^verbatim>\<open>players\<close>, a
  nil master and a timestamp that does not decode (the type assertion on a nil
  interface) panic.
\<close>

definition msgGetRoomInfo :: "Env \<Rightarrow> Room \<Rightarrow> panic + Room" where
  "msgGetRoomInfo env r =
     (let ri = RoomInfo r in
      if \<exists>id \<in> set (masterOrder r). fmlookup (players r) id = None then Inl NilDereference
      else if \<exists>p |\<in>| fmdom (lastMsg r). UnmarshalULong env (the (fmlookup (lastMsg r) p)) = None
      then Inl NilTypeAssertion
      else
        case master r of
          None \<Rightarrow> Inl NilDereference
        | Some m \<Rightarrow>
            let cis = map (\<lambda>id. ClientInfo (heap r (the (fmlookup (players r) id)))) (masterOrder r);
                lmt = fmmap (\<lambda>d. the (UnmarshalULong env d)) (lastMsg r)
            in Inr (reply (ReplyRoomInfo (GetRoomInfoRes ri cis (Id (ClientInfo (heap r m))) lmt)) r))"

definition msgClientError :: "Env \<Rightarrow> cref \<Rightarrow> string \<Rightarrow> Room \<Rightarrow> panic + Room" where
  "msgClientError env s errMsg r = removeClient env s errMsg r"

definition msgClientTimeout :: "Env \<Rightarrow> cref \<Rightarrow> Room \<Rightarrow> panic + Room" where
  "msgClientTimeout env s r = removeClient env s ''timeout'' r"

fun dispatch :: "Env \<Rightarrow> 64 word \<Rightarrow> Msg \<Rightarrow> Room \<Rightarrow> panic + Room" where
  "dispatch env now (MsgCreate info macKey) r = msgCreate env now info macKey r"
| "dispatch env now (MsgJoin info macKey) r = msgJoin env now info macKey r"
| "dispatch env now (MsgWatch info macKey) r = msgWatch env info macKey r"
| "dispatch env now (MsgPing s timestamp) r = msgPing env s timestamp r"
| "dispatch env now (MsgNodeCount s cnt) r = msgNodeCount s cnt r"
| "dispatch env now (MsgLeave s message) r = msgLeave env s message r"
| "dispatch env now (MsgRoomProp msg pl) r = msgRoomProp env msg pl r"
| "dispatch env now (MsgClientProp msg prps) r = msgClientProp env msg prps r"
| "dispatch env now (MsgTargets msg targets data) r = msgTargets env msg targets data r"
| "dispatch env now (MsgToMaster msg data) r = msgToMaster env msg data r"
| "dispatch env now (MsgBroadcast msg data) r = msgBroadcast env msg data r"
| "dispatch env now (MsgSwitchMaster msg tgt) r = msgSwitchMaster env msg tgt r"
| "dispatch env now (MsgKick msg tgt message) r = msgKick env msg tgt message r"
| "dispatch env now (MsgAdminKick tgt) r = msgAdminKick env tgt r"
| "dispatch env now MsgGetRoomInfo r = msgGetRoomInfo env r"
| "dispatch env now (MsgClientError s errMsg) r = msgClientError env s errMsg r"
| "dispatch env now (MsgClientTimeout s) r = msgClientTimeout env s r"

text \<open>
  \<^verbatim>\<open>NewRoom\<close> builds the room from the room info and the deadline, starts the message
  loop and sends \<^verbatim>\<open>MsgCreate\<close> as the first message. \<open>NewRoom_room\<close> is the
  struct it builds (\<open>None\<close> when a props blob does not decode, which makes \<^verbatim>\<open>NewRoom\<close>
  return \<open>InvalidArgument\<close>); \<open>h0\<close> is the store before any client is created.
\<close>

definition NewRoom_room :: "Env \<Rightarrow> (cref \<Rightarrow> Client) \<Rightarrow> RoomInfo \<Rightarrow> 32 word \<Rightarrow> Room option" where
  "NewRoom_room env h0 info deadlineSec =
     (case InitProps env (RoomInfo.PublicProps info) of
        None \<Rightarrow> None
      | Some (pubProps, iProps) \<Rightarrow>
          let info1 = info\<lparr>RoomInfo.PublicProps := iProps\<rparr> in
          case InitProps env (RoomInfo.PrivateProps info1) of
            None \<Rightarrow> None
          | Some (privProps, iProps') \<Rightarrow>
              let info2 = info1\<lparr>RoomInfo.PrivateProps := iProps'\<rparr> in
              Some \<lparr>RoomInfo = info2, deadline = uint deadlineSec * Second,
                    publicProps = pubProps, privateProps = privProps, doneClosed = False,
                    players = fmempty, master = None, masterOrder = [], watchers = fmempty,
                    lastMsg = fmempty, chRoomInfo = False, lastRoomInfo = info2,
                    heap = h0, nextRef = 0, replies = []\<rparr>)"

text \<open>
  The states of a room. \<^verbatim>\<open>MsgLoop\<close> takes a message, calls \<^verbatim>\<open>updateLastMsg\<close> with
  the id of its sender (holding no lock) and dispatches it; the goroutines started by
  \<^verbatim>\<open>sendTo\<close> call \<^verbatim>\<open>removeClient\<close> under the write lock in between. Each of the
  three is a transition, for any id, message and client. \<^verbatim>\<open>MsgCreate\<close> is sent by
  \<^verbatim>\<open>NewRoom\<close> only, and a room whose \<^verbatim>\<open>MsgCreate\<close> failed is given to nobody. A
  transition that panics ends the process and leads to no state.
\<close>

inductive reachable :: "Env \<Rightarrow> Room \<Rightarrow> bool" for env :: Env where
  created:
    "NewRoom_room env h0 info deadlineSec = Some r0 \<Longrightarrow>
     NewPlayer env masterInfo macKey = Inr c \<Longrightarrow>
     msgCreate env now masterInfo macKey r0 = Inr r \<Longrightarrow> reachable env r"
| lastMsgUpdated:
    "reachable env r \<Longrightarrow> reachable env (updateLastMsg env now cid r)"
| dispatched:
    "reachable env r \<Longrightarrow> (\<forall>info macKey. msg \<noteq> MsgCreate info macKey) \<Longrightarrow>
     dispatch env now msg r = Inr r' \<Longrightarrow> reachable env r'"
| AsyncRemove:
    "reachable env r \<Longrightarrow> removeClient env c cause r = Inr r' \<Longrightarrow> reachable env r'"

text \<open>
  For stating what \<open>removePlayer\<close> leaves behind when players remain: the room without
  the client \<open>c\<close>, with master \<open>m\<close>, the player count stored and published, the
  \<^verbatim>\<open>EvLeft\<close> event broadcast and the entry of \<open>c\<close> in \<open>lastMsg\<close> removed.
\<close>

definition afterLeft :: "Env \<Rightarrow> cref \<Rightarrow> string \<Rightarrow> cref \<Rightarrow> Room \<Rightarrow> Room" where
  "afterLeft env c cause m r =
     (let cid = Client_ID (heap r c);
          r3 = r\<lparr>players := fmdrop cid (players r),
                 masterOrder := remove1 cid (masterOrder r),
                 heap := (heap r)(c := Client_Removed cause (heap r c)),
                 master := Some m\<rparr>;
          r5 = r3\<lparr>RoomInfo := (RoomInfo r3)\<lparr>Players := of_nat (lenMap (players r3))\<rparr>\<rparr>
      in removeLastMsg cid
           (broadcast (NewEvLeft env cid (Id (ClientInfo (heap r m))) cause) (updateRoomInfo r5)))"

subsection \<open>A room for the examples\<close>

text \<open>
  A codec to run the model on: strings with a length byte, numbers big-endian, a dict
  reduced to the number of its keys, every property blob decoding to the empty dict.
  \<open>exRoom1\<close> is the room that \<open>M\<close> has created (at most two players),
  \<open>exRoom2\<close> the room after \<open>A\<close> has joined it.
\<close>

definition exEnv :: Env where
  "exEnv = \<lparr>MarshalStr8 = (\<lambda>s. of_nat (length s) # map (\<lambda>c. of_nat (of_char c)) s),
            MarshalStrings = (\<lambda>ss. [of_nat (length ss)]),
            MarshalULong = (\<lambda>w. [ucast (drop_bit 56 w), ucast (drop_bit 48 w), ucast (drop_bit 40 w),
                                  ucast (drop_bit 32 w), ucast (drop_bit 24 w), ucast (drop_bit 16 w),
                                  ucast (drop_bit 8 w), ucast w]),
            MarshalUInt = put32,
            MarshalDict = (\<lambda>d. [of_nat (fcard (fmdom d))]),
            UnmarshalULong = (\<lambda>b. if length b = 8 then Some 0 else None),
            InitProps = (\<lambda>b. Some (fmempty, b)),
            initNodeCount = (\<lambda>i. 1)\<rparr>"

definition exClient :: Client where
  "exClient = \<lparr>ClientInfo = \<lparr>Id = '''', Props = []\<rparr>, isPlayer = False, props = fmempty,
               nodeCount = 0, evbuf = [], sysevs = [], newDeadline = [], removed = None\<rparr>"

definition exInfo :: RoomInfo where
  "exInfo = \<lparr>RoomInfo.Visible = True, RoomInfo.Joinable = True, RoomInfo.Watchable = True,
             RoomInfo.SearchGroup = 0,
             MaxPlayers = 2, Players = 1, Watchers = 0, RoomInfo.PublicProps = [],
             RoomInfo.PrivateProps = []\<rparr>"

definition exRoom0 :: Room where
  "exRoom0 = the (NewRoom_room exEnv (\<lambda>a. exClient) exInfo 30)"

definition exRoom1 :: Room where
  "exRoom1 = projr (msgCreate exEnv 0 \<lparr>Id = ''M'', Props = []\<rparr> ''key'' exRoom0)"

definition exRoom2 :: Room where
  "exRoom2 = projr (msgJoin exEnv 0 \<lparr>Id = ''A'', Props = []\<rparr> ''key'' exRoom1)"


text \<open>
  A fresh connection and an event buffer that holds the events 4, 5 and 6, the events
  before them having been evicted.
\<close>

definition exConn :: Conn where
  "exConn = \<lparr>written = [], nwrites = 0, connClosed = False\<rparr>"

definition exEvbuf :: "RegularEvent RingBuf" where
  "exEvbuf = \<lparr>first = 4, items = [RegularEvent 35 [4], RegularEvent 35 [5], RegularEvent 35 [6]]\<rparr>"

text \<open>
  Messages for the examples: \<open>exMsgA\<close> comes from \<open>A\<close> (address 1, not the master),
  \<open>exMsgM\<close> from the master \<open>M\<close> (address 0); \<open>exProps\<close> lowers the maximum
  number of players to 1 and carries one public property, \<open>k\<close>, with a value of length
  0. The other rooms are the results of a message on \<open>exRoom2\<close> or \<open>exRoom1\<close>.
\<close>

definition exMsgA :: RegularMsg where
  "exMsgA = \<lparr>Sender = 1, SequenceNum = 7, Payload = [9]\<rparr>"

definition exMsgM :: RegularMsg where
  "exMsgM = \<lparr>Sender = 0, SequenceNum = 3, Payload = [9]\<rparr>"

definition exProps :: MsgRoomPropPayload where
  "exProps = \<lparr>MsgRoomPropPayload.Visible = True, MsgRoomPropPayload.Joinable = True,
              MsgRoomPropPayload.Watchable = True, MsgRoomPropPayload.SearchGroup = 0,
              MaxPlayer = 1, ClientDeadline = 0,
              MsgRoomPropPayload.PublicProps = [(''k'', [])],
              MsgRoomPropPayload.PrivateProps = [], EventPayload = []\<rparr>"

definition exRoomSwitched :: Room where
  "exRoomSwitched = projr (msgSwitchMaster exEnv exMsgA ''A'' exRoom2)"

definition exRoomProp :: Room where
  "exRoomProp = projr (msgRoomProp exEnv exMsgM exProps exRoom2)"

definition exRoomLeft :: Room where
  "exRoomLeft = projr (msgLeave exEnv 0 ''bye'' exRoom2)"

definition exRoomGone :: Room where
  "exRoomGone = projr (msgLeave exEnv 0 ''bye'' exRoom1)"

subsection \<open>Facts about the event frames\<close>

lemma uint_byte_of_int: "uint (word_of_int k :: byte) = k mod 256"
  by (simp add: uint_word_of_int)

lemma be32_digits:
  fixes v :: int
  assumes "0 \<le> v" and "v < 4294967296"
  shows "v div 16777216 mod 256 * 16777216 + v div 65536 mod 256 * 65536
        + v div 256 mod 256 * 256 + v mod 256 = v"
proof -
  define x1 where "x1 = v div 256"
  define x2 where "x2 = x1 div 256"
  define x3 where "x3 = x2 div 256"
  have d2: "v div 65536 = x2"
    unfolding x2_def x1_def by (simp add: zdiv_zmult2_eq [symmetric])
  have d3: "v div 16777216 = x3"
    unfolding x3_def x2_def x1_def by (simp add: zdiv_zmult2_eq [symmetric])
  have e0: "v = 256 * x1 + v mod 256"
    unfolding x1_def by simp
  have e1: "x1 = 256 * x2 + x1 mod 256"
    unfolding x2_def by simp
  have e2: "x2 = 256 * x3 + x2 mod 256"
    unfolding x3_def by simp
  have n0: "0 \<le> v mod 256" and n1: "0 \<le> x1 mod 256" and n2: "0 \<le> x2 mod 256"
    by simp_all
  have "0 \<le> x3"
    unfolding x3_def x2_def x1_def using assms(1) by (simp add: pos_imp_zdiv_nonneg_iff)
  moreover have "x3 < 256"
    using e0 e1 e2 n0 n1 n2 assms(2) by linarith
  ultimately have m3: "x3 mod 256 = x3"
    by simp
  show ?thesis
    unfolding d2 d3 m3 x1_def [symmetric] using e0 e1 e2 by linarith
qed

lemma get32_put32:
  assumes "0 \<le> v" and "v < 2 ^ 32"
  shows "get32 (put32 v @ rest) = v"
proof -
  have "get32 (put32 v @ rest) = v div 16777216 mod 256 * 16777216 + v div 65536 mod 256 * 65536
        + v div 256 mod 256 * 256 + v mod 256"
    by (simp add: get32_def put32_def uint_byte_of_int)
  also have "\<dots> = v"
    using assms by (intro be32_digits) simp_all
  finally show ?thesis .
qed

lemma UnmarshalEvent_error_iff:
  "(\<exists>e. UnmarshalEvent data = Inl e) \<longleftrightarrow>
     (data = [] \<or> (regularEvType \<le> data ! 0 \<and> length data < 5))"
  by (cases data) (auto simp: UnmarshalEvent_def Let_def not_less)

text \<open>
  C2. Decoding the frame of a regular event (type at least 30) marshalled with a sequence
  number between 0 and \<open>2^32 - 1\<close> gives back the event and the sequence number; decoding
  the frame of a system event (type below 30) gives back the event with sequence number 0.
\<close>

theorem event_roundtrip:
  "(regularEvType \<le> RegularEvent.etype e \<and> 0 \<le> seq \<and> seq < 2 ^ 32 \<longrightarrow>
      UnmarshalEvent (RegularEvent_Marshal e seq) = Inr (Regular e, seq)) \<and>
   (SystemEvent.etype s < regularEvType \<longrightarrow>
      UnmarshalEvent (SystemEvent_Marshal s) = Inr (System s, 0))"
proof (intro conjI impI)
  assume h: "regularEvType \<le> RegularEvent.etype e \<and> 0 \<le> seq \<and> seq < 2 ^ 32"
  have len: "length (put32 seq) = 4"
    by (simp add: put32_def)
  from h have "get32 (put32 seq @ RegularEvent.payload e) = seq"
    by (simp add: get32_put32)
  with h len show "UnmarshalEvent (RegularEvent_Marshal e seq) = Inr (Regular e, seq)"
    by (simp add: UnmarshalEvent_def RegularEvent_Marshal_def Let_def not_less)
next
  assume "SystemEvent.etype s < regularEvType"
  then show "UnmarshalEvent (SystemEvent_Marshal s) = Inr (System s, 0)"
    by (simp add: UnmarshalEvent_def SystemEvent_Marshal_def Let_def)
qed

theorem event_roundtrip_witness:
  "UnmarshalEvent (RegularEvent_Marshal (RegularEvent EvTypeMessage [1, 2]) 65539)
     = Inr (Regular (RegularEvent EvTypeMessage [1, 2]), 65539) \<and>
   RegularEvent_Marshal (RegularEvent EvTypeMessage [1, 2]) 65539 = [35, 0, 1, 0, 3, 1, 2] \<and>
   UnmarshalEvent (SystemEvent_Marshal (SystemEvent EvTypePong [7]))
     = Inr (System (SystemEvent EvTypePong [7]), 0)"
  using event_roundtrip [of "RegularEvent EvTypeMessage [1, 2]" 65539 "SystemEvent EvTypePong [7]"]
  by (simp add: EvTypeMessage_def EvTypePong_def regularEvType_def RegularEvent_Marshal_def
      put32_def)

text \<open>
  C3 as stated (every frame whose first byte is not a defined type is rejected) fails:
  the one-byte frame \<open>[0]\<close> decodes to a system event of type 0, and a five-byte frame of
  type 200 decodes to a regular event.
\<close>

theorem unknown_type_accepted:
  "0 \<notin> set definedEvTypes \<and> UnmarshalEvent [0] = Inr (System (SystemEvent 0 []), 0) \<and>
   200 \<notin> set definedEvTypes \<and>
   UnmarshalEvent [200, 0, 0, 0, 9] = Inr (Regular (RegularEvent 200 []), 9)"
  by (simp add: definedEvTypes_def UnmarshalEvent_def get32_def regularEvType_def
      responseEvType_def EvTypePeerReady_def EvTypePong_def EvTypeJoined_def EvTypeLeft_def
      EvTypeRoomProp_def EvTypeClientProp_def EvTypeMasterSwitched_def EvTypeMessage_def
      EvTypeSucceeded_def EvTypePermissionDenied_def EvTypeTargetNotFound_def)

text \<open>
  C3, amended. \<open>UnmarshalEvent\<close> looks at the first byte only to choose between the two
  frame layouts. It returns an error exactly when the input is empty, or the first byte is
  at least 30 and fewer than four bytes follow it; a first byte below 30 always gives a
  system event carrying the remaining bytes, and any other accepted frame gives a regular
  event with the decoded sequence number, whether or not the type is a defined one.
\<close>

theorem UnmarshalEvent_rejects_only_short_frames:
  "((\<exists>e. UnmarshalEvent data = Inl e) \<longleftrightarrow>
      (data = [] \<or> (regularEvType \<le> data ! 0 \<and> length data < 5))) \<and>
   (data \<noteq> [] \<and> data ! 0 < regularEvType \<longrightarrow>
      UnmarshalEvent data = Inr (System (SystemEvent (data ! 0) (drop 1 data)), 0)) \<and>
   (regularEvType \<le> data ! 0 \<and> 5 \<le> length data \<longrightarrow>
      UnmarshalEvent data =
        Inr (Regular (RegularEvent (data ! 0) (drop 5 data)), get32 (drop 1 data)))"
proof (intro conjI impI)
  show "(\<exists>e. UnmarshalEvent data = Inl e) \<longleftrightarrow>
      (data = [] \<or> (regularEvType \<le> data ! 0 \<and> length data < 5))"
    by (rule UnmarshalEvent_error_iff)
next
  assume "data \<noteq> [] \<and> data ! 0 < regularEvType"
  then show "UnmarshalEvent data = Inr (System (SystemEvent (data ! 0) (drop 1 data)), 0)"
    by (simp add: UnmarshalEvent_def Let_def)
next
  assume "regularEvType \<le> data ! 0 \<and> 5 \<le> length data"
  then show "UnmarshalEvent data =
        Inr (Regular (RegularEvent (data ! 0) (drop 5 data)), get32 (drop 1 data))"
    by (auto simp: UnmarshalEvent_def Let_def not_less)
qed

theorem UnmarshalEvent_rejects_only_short_frames_witness:
  "(\<exists>e. UnmarshalEvent [35, 0, 0] = Inl e) \<and>
   UnmarshalEvent [2, 5] = Inr (System (SystemEvent 2 [5]), 0) \<and>
   UnmarshalEvent [77, 0, 0, 1, 0, 8] = Inr (Regular (RegularEvent 77 [8]), 256)"
  using UnmarshalEvent_rejects_only_short_frames [of "[35, 0, 0]"]
    UnmarshalEvent_rejects_only_short_frames [of "[2, 5]"]
    UnmarshalEvent_rejects_only_short_frames [of "[77, 0, 0, 1, 0, 8]"]
  by (simp add: regularEvType_def get32_def)

subsection \<open>Facts about the peer\<close>

lemma RingBuf_Read_error_iff:
  "(\<exists>err. RingBuf_Read b s = Inl err) \<longleftrightarrow> s + 1 < first b"
  by (simp add: RingBuf_Read_def)

lemma writeEvents_all_ok:
  "(\<forall>j < length evs. werr (nwrites c + j) = None) \<Longrightarrow>
   writeEvents werr c s evs =
     (c\<lparr>written := written c @ eventFrames s evs, nwrites := nwrites c + length evs\<rparr>,
      s + int (length evs), None)"
proof (induction evs arbitrary: c s)
  case Nil
  then show ?case by simp
next
  case (Cons ev evs)
  from Cons.prems have w0: "werr (nwrites c) = None"
    by force
  define c' where "c' = c\<lparr>written := written c @ [BinaryMessage (RegularEvent_Marshal ev (s + 1))],
                          nwrites := Suc (nwrites c)\<rparr>"
  have "\<forall>j < length evs. werr (nwrites c' + j) = None"
    using Cons.prems by (auto simp: c'_def)
  from Cons.IH [OF this, of "s + 1"] w0 show ?case
    by (simp add: writeMessage_def c'_def Let_def add.assoc)
qed

lemma writeEvents_first_failure:
  "i < length evs \<Longrightarrow> werr (nwrites c + i) = Some e \<Longrightarrow>
   (\<forall>j < i. werr (nwrites c + j) = None) \<Longrightarrow>
   writeEvents werr c s evs =
     (c\<lparr>written := written c @ eventFrames s (take i evs), nwrites := nwrites c + i + 1\<rparr>,
      s + int i + 1, Some e)"
proof (induction evs arbitrary: c s i)
  case Nil
  then show ?case by simp
next
  case (Cons ev evs)
  show ?case
  proof (cases i)
    case 0
    with Cons.prems show ?thesis
      by (simp add: writeMessage_def)
  next
    case (Suc k)
    from Cons.prems Suc have w0: "werr (nwrites c) = None"
      by force
    define c' where "c' = c\<lparr>written := written c @ [BinaryMessage (RegularEvent_Marshal ev (s + 1))],
                          nwrites := Suc (nwrites c)\<rparr>"
    have a: "k < length evs" "werr (nwrites c' + k) = Some e"
      using Cons.prems Suc by (auto simp: c'_def)
    have b: "\<forall>j < k. werr (nwrites c' + j) = None"
    proof (intro allI impI)
      fix j assume "j < k"
      then have "Suc j < i" using Suc by simp
      with Cons.prems(3) have "werr (nwrites c + Suc j) = None" by blast
      then show "werr (nwrites c' + j) = None" by (simp add: c'_def)
    qed
    from Cons.IH [OF a b, of "s + 1"] w0 Suc show ?thesis
      by (simp add: writeMessage_def c'_def Let_def add.assoc)
  qed
qed

text \<open>
  C8. \<open>SendEvents\<close> returns an error exactly when the peer is open and the read of the
  event buffer at \<open>evSeqNum\<close> fails, and that read fails exactly when \<open>evSeqNum + 1\<close> is
  below the first buffered sequence number (too old). A closed peer returns nil and does
  nothing. On the failed read the close frame is GoingAway (1001), the peer and the
  connection are closed and the error is returned. When every write succeeds, the frames
  of the events read are written in order, numbered from \<open>evSeqNum + 1\<close>, and
  \<open>evSeqNum\<close> advances by their number. When the write of the event at position \<open>i\<close>
  is the first to fail, the frames before it have been written, the close frame is
  InternalServerErr (1011), the peer and the connection are closed, \<open>evSeqNum\<close> keeps
  its value and nil is returned.
\<close>

theorem SendEvents_outcomes:
  "(snd (SendEvents werr p buf) \<noteq> None \<longleftrightarrow>
      \<not> closed p \<and> (\<exists>err. RingBuf_Read buf (evSeqNum p) = Inl err)) \<and>
   ((\<exists>err. RingBuf_Read buf (evSeqNum p) = Inl err) \<longleftrightarrow> evSeqNum p + 1 < first buf) \<and>
   (closed p \<longrightarrow> SendEvents werr p buf = (p, None)) \<and>
   (\<not> closed p \<and> evSeqNum p + 1 < first buf \<longrightarrow>
      SendEvents werr p buf =
        (p\<lparr>conn := (fst (writeMessage werr (conn p)
                     (CloseMessage CloseGoingAway (RingBufError_Error TooOld))))
                   \<lparr>connClosed := True\<rparr>,
           closed := True\<rparr>, Some TooOld)) \<and>
   (\<not> closed p \<and> RingBuf_Read buf (evSeqNum p) = Inr evs \<and>
    (\<forall>j < length evs. werr (nwrites (conn p) + j) = None) \<longrightarrow>
      SendEvents werr p buf =
        (p\<lparr>conn := (conn p)\<lparr>written := written (conn p) @ eventFrames (evSeqNum p) evs,
                             nwrites := nwrites (conn p) + length evs\<rparr>,
           evSeqNum := evSeqNum p + int (length evs)\<rparr>, None)) \<and>
   (\<not> closed p \<and> RingBuf_Read buf (evSeqNum p) = Inr evs \<and> i < length evs \<and>
    werr (nwrites (conn p) + i) = Some e \<and> (\<forall>j < i. werr (nwrites (conn p) + j) = None) \<longrightarrow>
      SendEvents werr p buf =
        (p\<lparr>conn := (fst (writeMessage werr
                     ((conn p)\<lparr>written := written (conn p) @ eventFrames (evSeqNum p) (take i evs),
                               nwrites := nwrites (conn p) + i + 1\<rparr>)
                     (formatCloseMessage CloseInternalServerErr e)))
                   \<lparr>connClosed := True\<rparr>,
           closed := True\<rparr>, None))"
proof (intro conjI impI)
  show "(\<exists>err. RingBuf_Read buf (evSeqNum p) = Inl err) \<longleftrightarrow> evSeqNum p + 1 < first buf"
    by (rule RingBuf_Read_error_iff)
next
  show "snd (SendEvents werr p buf) \<noteq> None \<longleftrightarrow>
      \<not> closed p \<and> (\<exists>err. RingBuf_Read buf (evSeqNum p) = Inl err)"
    by (auto simp: SendEvents_def Let_def split: sum.splits prod.splits option.splits)
next
  assume "closed p"
  then show "SendEvents werr p buf = (p, None)"
    by (simp add: SendEvents_def)
next
  assume "\<not> closed p \<and> evSeqNum p + 1 < first buf"
  then show "SendEvents werr p buf =
        (p\<lparr>conn := (fst (writeMessage werr (conn p)
                     (CloseMessage CloseGoingAway (RingBufError_Error TooOld))))
                   \<lparr>connClosed := True\<rparr>,
           closed := True\<rparr>, Some TooOld)"
    by (simp add: SendEvents_def RingBuf_Read_def formatCloseMessage_def
        RingBufError_Error_def split: prod.splits)
next
  assume h: "\<not> closed p \<and> RingBuf_Read buf (evSeqNum p) = Inr evs \<and>
    (\<forall>j < length evs. werr (nwrites (conn p) + j) = None)"
  then have "\<forall>j < length evs. werr (nwrites (conn p) + j) = None"
    by blast
  from writeEvents_all_ok [OF this, of "evSeqNum p"] h
  show "SendEvents werr p buf =
        (p\<lparr>conn := (conn p)\<lparr>written := written (conn p) @ eventFrames (evSeqNum p) evs,
                             nwrites := nwrites (conn p) + length evs\<rparr>,
           evSeqNum := evSeqNum p + int (length evs)\<rparr>, None)"
    by (simp add: SendEvents_def)
next
  assume h: "\<not> closed p \<and> RingBuf_Read buf (evSeqNum p) = Inr evs \<and> i < length evs \<and>
    werr (nwrites (conn p) + i) = Some e \<and> (\<forall>j < i. werr (nwrites (conn p) + j) = None)"
  then have a: "i < length evs" "werr (nwrites (conn p) + i) = Some e"
    "\<forall>j < i. werr (nwrites (conn p) + j) = None"
    by blast+
  from writeEvents_first_failure [OF a, of "evSeqNum p"] h
  show "SendEvents werr p buf =
        (p\<lparr>conn := (fst (writeMessage werr
                     ((conn p)\<lparr>written := written (conn p) @ eventFrames (evSeqNum p) (take i evs),
                               nwrites := nwrites (conn p) + i + 1\<rparr>)
                     (formatCloseMessage CloseInternalServerErr e)))
                   \<lparr>connClosed := True\<rparr>,
           closed := True\<rparr>, None)"
    by (simp add: SendEvents_def split: prod.splits)
qed

theorem SendEvents_outcomes_witness:
  "SendEvents (\<lambda>n. None) \<lparr>conn = exConn, closed = False, evSeqNum = 1\<rparr> exEvbuf =
     (\<lparr>conn = \<lparr>written = [CloseMessage 1001 ''too old''], nwrites = 1, connClosed = True\<rparr>,
       closed = True, evSeqNum = 1\<rparr>, Some TooOld) \<and>
   SendEvents (\<lambda>n. None) \<lparr>conn = exConn, closed = False, evSeqNum = 4\<rparr> exEvbuf =
     (\<lparr>conn = \<lparr>written = [BinaryMessage [35, 0, 0, 0, 5, 5], BinaryMessage [35, 0, 0, 0, 6, 6]],
                nwrites = 2, connClosed = False\<rparr>,
       closed = False, evSeqNum = 6\<rparr>, None) \<and>
   SendEvents (\<lambda>n. if n = 1 then Some ''timeout'' else None)
       \<lparr>conn = exConn, closed = False, evSeqNum = 4\<rparr> exEvbuf =
     (\<lparr>conn = \<lparr>written = [BinaryMessage [35, 0, 0, 0, 5, 5], CloseMessage 1011 ''timeout''],
                nwrites = 3, connClosed = True\<rparr>,
       closed = True, evSeqNum = 4\<rparr>, None) \<and>
   SendEvents (\<lambda>n. None) \<lparr>conn = exConn, closed = True, evSeqNum = 1\<rparr> exEvbuf =
     (\<lparr>conn = exConn, closed = True, evSeqNum = 1\<rparr>, None)"
  using
    SendEvents_outcomes [of "\<lambda>n. None" "\<lparr>conn = exConn, closed = False, evSeqNum = 1\<rparr>" exEvbuf]
    SendEvents_outcomes [of "\<lambda>n. None" "\<lparr>conn = exConn, closed = False, evSeqNum = 4\<rparr>" exEvbuf
      "[RegularEvent 35 [5], RegularEvent 35 [6]]"]
    SendEvents_outcomes [of "\<lambda>n. if n = 1 then Some ''timeout'' else None"
      "\<lparr>conn = exConn, closed = False, evSeqNum = 4\<rparr>" exEvbuf
      "[RegularEvent 35 [5], RegularEvent 35 [6]]" 1 "''timeout''"]
    SendEvents_outcomes [of "\<lambda>n. None" "\<lparr>conn = exConn, closed = True, evSeqNum = 1\<rparr>" exEvbuf]
  by (simp add: exConn_def exEvbuf_def RingBuf_Read_def writeMessage_def formatCloseMessage_def
      CloseGoingAway_def CloseInternalServerErr_def RingBufError_Error_def
      RegularEvent_Marshal_def put32_def)

subsection \<open>Facts about the room\<close>

lemma sendTo_fields [simp]:
  "RoomInfo (sendTo c ev r) = RoomInfo r"
  "deadline (sendTo c ev r) = deadline r"
  "publicProps (sendTo c ev r) = publicProps r"
  "privateProps (sendTo c ev r) = privateProps r"
  "doneClosed (sendTo c ev r) = doneClosed r"
  "players (sendTo c ev r) = players r"
  "master (sendTo c ev r) = master r"
  "masterOrder (sendTo c ev r) = masterOrder r"
  "watchers (sendTo c ev r) = watchers r"
  "lastMsg (sendTo c ev r) = lastMsg r"
  "chRoomInfo (sendTo c ev r) = chRoomInfo r"
  "lastRoomInfo (sendTo c ev r) = lastRoomInfo r"
  "nextRef (sendTo c ev r) = nextRef r"
  "replies (sendTo c ev r) = replies r"
  by (simp_all add: sendTo_def)

lemma broadcast_fields [simp]:
  "RoomInfo (broadcast ev r) = RoomInfo r"
  "deadline (broadcast ev r) = deadline r"
  "publicProps (broadcast ev r) = publicProps r"
  "privateProps (broadcast ev r) = privateProps r"
  "doneClosed (broadcast ev r) = doneClosed r"
  "players (broadcast ev r) = players r"
  "master (broadcast ev r) = master r"
  "masterOrder (broadcast ev r) = masterOrder r"
  "watchers (broadcast ev r) = watchers r"
  "lastMsg (broadcast ev r) = lastMsg r"
  "chRoomInfo (broadcast ev r) = chRoomInfo r"
  "lastRoomInfo (broadcast ev r) = lastRoomInfo r"
  "nextRef (broadcast ev r) = nextRef r"
  "replies (broadcast ev r) = replies r"
  by (simp_all add: broadcast_def Let_def)

lemma reply_fields [simp]:
  "RoomInfo (reply x r) = RoomInfo r"
  "doneClosed (reply x r) = doneClosed r"
  "players (reply x r) = players r"
  "master (reply x r) = master r"
  "masterOrder (reply x r) = masterOrder r"
  "watchers (reply x r) = watchers r"
  "lastMsg (reply x r) = lastMsg r"
  "heap (reply x r) = heap r"
  by (simp_all add: reply_def)

lemma updateRoomInfo_fields [simp]:
  "RoomInfo (updateRoomInfo r) = RoomInfo r"
  "doneClosed (updateRoomInfo r) = doneClosed r"
  "players (updateRoomInfo r) = players r"
  "master (updateRoomInfo r) = master r"
  "masterOrder (updateRoomInfo r) = masterOrder r"
  "watchers (updateRoomInfo r) = watchers r"
  "lastMsg (updateRoomInfo r) = lastMsg r"
  "heap (updateRoomInfo r) = heap r"
  by (simp_all add: updateRoomInfo_def)

lemma writeLastMsg_fields [simp]:
  "RoomInfo (writeLastMsg env now cid r) = RoomInfo r"
  "doneClosed (writeLastMsg env now cid r) = doneClosed r"
  "players (writeLastMsg env now cid r) = players r"
  "master (writeLastMsg env now cid r) = master r"
  "masterOrder (writeLastMsg env now cid r) = masterOrder r"
  "watchers (writeLastMsg env now cid r) = watchers r"
  "heap (writeLastMsg env now cid r) = heap r"
  "fmdom (lastMsg (writeLastMsg env now cid r)) = finsert cid (fmdom (lastMsg r))"
  by (simp_all add: writeLastMsg_def Let_def)

lemma removeLastMsg_fields [simp]:
  "RoomInfo (removeLastMsg cid r) = RoomInfo r"
  "doneClosed (removeLastMsg cid r) = doneClosed r"
  "players (removeLastMsg cid r) = players r"
  "master (removeLastMsg cid r) = master r"
  "masterOrder (removeLastMsg cid r) = masterOrder r"
  "watchers (removeLastMsg cid r) = watchers r"
  "heap (removeLastMsg cid r) = heap r"
  "lastMsg (removeLastMsg cid r) = fmdrop cid (lastMsg r)"
  by (simp_all add: removeLastMsg_def)

lemma alloc_fields [simp]:
  "RoomInfo (alloc c r) = RoomInfo r"
  "doneClosed (alloc c r) = doneClosed r"
  "players (alloc c r) = players r"
  "master (alloc c r) = master r"
  "masterOrder (alloc c r) = masterOrder r"
  "watchers (alloc c r) = watchers r"
  "lastMsg (alloc c r) = lastMsg r"
  by (simp_all add: alloc_def)

lemma exEnv_simps [simp]:
  "InitProps exEnv b = Some (fmempty, b)"
  "initNodeCount exEnv i = 1"
  by (simp_all add: exEnv_def)

lemma lenMap_simps [simp]:
  "lenMap fmempty = 0"
  "lenMap (fmupd k v m) = (if k |\<in>| fmdom m then lenMap m else Suc (lenMap m))"
  by (simp_all add: lenMap_def fcard_finsert_if)

lemma exRoom0_eq:
  "exRoom0 = \<lparr>RoomInfo = exInfo, deadline = 30000000000,
                    publicProps = fmempty, privateProps = fmempty, doneClosed = False,
                    players = fmempty, master = None, masterOrder = [], watchers = fmempty,
                    lastMsg = fmempty, chRoomInfo = False, lastRoomInfo = exInfo,
                    heap = (\<lambda>a. exClient), nextRef = 0, replies = []\<rparr>"
  by (simp add: exRoom0_def NewRoom_room_def exInfo_def Second_def Let_def)

lemma exRoom1_created:
  "msgCreate exEnv 0 \<lparr>Id = ''M'', Props = []\<rparr> ''key'' exRoom0 = Inr exRoom1"
  by (simp add: exRoom1_def msgCreate_def NewPlayer_def newClient_def Let_def)

lemma exRoom1_fields:
  "players exRoom1 = fmupd ''M'' 0 fmempty"
  "watchers exRoom1 = fmempty"
  "master exRoom1 = Some 0"
  "masterOrder exRoom1 = [''M'']"
  "RoomInfo exRoom1 = exInfo"
  "fmdom (lastMsg exRoom1) = {|''M''|}"
  "doneClosed exRoom1 = False"
  "publicProps exRoom1 = fmempty"
  "privateProps exRoom1 = fmempty"
  "nextRef exRoom1 = 1"
  "ClientInfo (heap exRoom1 0) = \<lparr>Id = ''M'', Props = []\<rparr>"
  "isPlayer (heap exRoom1 0)"
  by (simp_all add: exRoom1_def exRoom0_eq msgCreate_def NewPlayer_def newClient_def Let_def
      Client_ID_def alloc_def broadcast_def forClients_def writeLastMsg_def reply_def Client_Send_def)

lemma exRoom2_joined:
  "msgJoin exEnv 0 \<lparr>Id = ''A'', Props = []\<rparr> ''key'' exRoom1 = Inr exRoom2"
  by (simp add: exRoom2_def msgJoin_def exRoom1_fields exInfo_def NewPlayer_def newClient_def
      Let_def Client_ID_def)

lemma exRoom2_fields:
  "players exRoom2 = fmupd ''A'' 1 (fmupd ''M'' 0 fmempty)"
  "watchers exRoom2 = fmempty"
  "master exRoom2 = Some 0"
  "masterOrder exRoom2 = [''M'', ''A'']"
  "RoomInfo exRoom2 = exInfo\<lparr>Players := 2\<rparr>"
  "fmdom (lastMsg exRoom2) = {|''A'', ''M''|}"
  "doneClosed exRoom2 = False"
  "publicProps exRoom2 = fmempty"
  "privateProps exRoom2 = fmempty"
  "nextRef exRoom2 = 2"
  "ClientInfo (heap exRoom2 0) = \<lparr>Id = ''M'', Props = []\<rparr>"
  "ClientInfo (heap exRoom2 (Suc 0)) = \<lparr>Id = ''A'', Props = []\<rparr>"
  "isPlayer (heap exRoom2 0)"
  "isPlayer (heap exRoom2 (Suc 0))"
  by (simp_all add: exRoom2_def msgJoin_def exRoom1_fields exInfo_def NewPlayer_def newClient_def
      Let_def Client_ID_def alloc_def broadcast_def forClients_def writeLastMsg_def reply_def
      Client_Send_def updateRoomInfo_def word_le_nat_alt)

lemma Client_ID_simps [simp]:
  "Client_ID (Client_Send ev c) = Client_ID c"
  "Client_ID (Client_Removed cause c) = Client_ID c"
  "Client_ID (Client_SendSystemEvent sev c) = Client_ID c"
  by (simp_all add: Client_ID_def Client_Send_def Client_Removed_def Client_SendSystemEvent_def)

lemma mergeEntries_other:
  "k \<notin> fst ` set kvs \<Longrightarrow> fmlookup (mergeEntries kvs d) k = fmlookup d k"
  unfolding mergeEntries_def
  by (induction kvs arbitrary: d) (auto simp: mergeEntry_def)

lemma mergeEntries_lookup:
  "distinct (map fst kvs) \<Longrightarrow> (k, v) \<in> set kvs \<Longrightarrow>
   fmlookup (mergeEntries kvs d) k =
     (if k |\<in>| fmdom d \<and> length v = 0 then None else Some v)"
proof (induction kvs arbitrary: d)
  case Nil
  then show ?case by simp
next
  case (Cons kv kvs)
  show ?case
  proof (cases "kv = (k, v)")
    case True
    with Cons.prems have "k \<notin> fst ` set kvs"
      by auto
    then have "fmlookup (mergeEntries kvs (mergeEntry kv d)) k = fmlookup (mergeEntry kv d) k"
      by (rule mergeEntries_other)
    with True show ?thesis
      by (simp add: mergeEntries_def mergeEntry_def)
  next
    case False
    with Cons.prems have in_tl: "(k, v) \<in> set kvs" and ne: "fst kv \<noteq> k"
      by (auto simp: rev_image_eqI)
    from Cons.prems have "distinct (map fst kvs)"
      by simp
    from Cons.IH [OF this in_tl, of "mergeEntry kv d"] ne show ?thesis
      by (auto simp: mergeEntries_def mergeEntry_def)
  qed
qed

lemma forClients_Send_fields [simp]:
  "props (forClients m (Client_Send ev) h a) = props (h a)"
  "ClientInfo (forClients m (Client_Send ev) h a) = ClientInfo (h a)"
  "isPlayer (forClients m (Client_Send ev) h a) = isPlayer (h a)"
  "nodeCount (forClients m (Client_Send ev) h a) = nodeCount (h a)"
  "removed (forClients m (Client_Send ev) h a) = removed (h a)"
  "Client_ID (forClients m (Client_Send ev) h a) = Client_ID (h a)"
  by (simp_all add: forClients_def Client_Send_def Client_ID_def)

lemma heap_broadcast_fields [simp]:
  "props (heap (broadcast ev r) a) = props (heap r a)"
  "ClientInfo (heap (broadcast ev r) a) = ClientInfo (heap r a)"
  "isPlayer (heap (broadcast ev r) a) = isPlayer (heap r a)"
  "nodeCount (heap (broadcast ev r) a) = nodeCount (heap r a)"
  "removed (heap (broadcast ev r) a) = removed (heap r a)"
  "Client_ID (heap (broadcast ev r) a) = Client_ID (heap r a)"
  by (simp_all add: broadcast_def Let_def)

lemma heap_sendTo_fields [simp]:
  "props (heap (sendTo c ev r) a) = props (heap r a)"
  "ClientInfo (heap (sendTo c ev r) a) = ClientInfo (heap r a)"
  "isPlayer (heap (sendTo c ev r) a) = isPlayer (heap r a)"
  "nodeCount (heap (sendTo c ev r) a) = nodeCount (heap r a)"
  "removed (heap (sendTo c ev r) a) = removed (heap r a)"
  "Client_ID (heap (sendTo c ev r) a) = Client_ID (heap r a)"
  by (simp_all add: sendTo_def Client_Send_def Client_ID_def)

theorem props_merge:
  "(master r = Some (Sender msg) \<and> msgRoomProp env msg pl r = Inr r' \<and>
    distinct (map fst (MsgRoomPropPayload.PublicProps pl)) \<and>
    (k, v) \<in> set (MsgRoomPropPayload.PublicProps pl) \<longrightarrow>
      fmlookup (publicProps r') k =
        (if k |\<in>| fmdom (publicProps r) \<and> length v = 0 then None else Some v)) \<and>
   (master r = Some (Sender msg) \<and> msgRoomProp env msg pl r = Inr r' \<and>
    distinct (map fst (MsgRoomPropPayload.PrivateProps pl)) \<and>
    (k, v) \<in> set (MsgRoomPropPayload.PrivateProps pl) \<longrightarrow>
      fmlookup (privateProps r') k =
        (if k |\<in>| fmdom (privateProps r) \<and> length v = 0 then None else Some v)) \<and>
   (isPlayer (heap r (Sender cmsg)) \<and>
    fmlookup (players r) (Client_ID (heap r (Sender cmsg))) = Some (Sender cmsg) \<and>
    msgClientProp env cmsg prps r = Inr r'' \<and>
    distinct (map fst prps) \<and> (k, v) \<in> set prps \<longrightarrow>
      fmlookup (props (heap r'' (Sender cmsg))) k =
        (if k |\<in>| fmdom (props (heap r (Sender cmsg))) \<and> length v = 0 then None else Some v))"
proof (intro conjI impI)
  assume h: "master r = Some (Sender msg) \<and> msgRoomProp env msg pl r = Inr r' \<and>
    distinct (map fst (MsgRoomPropPayload.PublicProps pl)) \<and>
    (k, v) \<in> set (MsgRoomPropPayload.PublicProps pl)"
  then have ne: "MsgRoomPropPayload.PublicProps pl \<noteq> []"
    by auto
  from h ne have "publicProps r' = mergeEntries (MsgRoomPropPayload.PublicProps pl) (publicProps r)"
    by (auto simp: msgRoomProp_def Let_def updateRoomInfo_def)
  moreover from h have "fmlookup (mergeEntries (MsgRoomPropPayload.PublicProps pl) (publicProps r)) k =
        (if k |\<in>| fmdom (publicProps r) \<and> length v = 0 then None else Some v)"
    by (intro mergeEntries_lookup) simp_all
  ultimately show "fmlookup (publicProps r') k =
        (if k |\<in>| fmdom (publicProps r) \<and> length v = 0 then None else Some v)"
    by (simp only:)
next
  assume h: "master r = Some (Sender msg) \<and> msgRoomProp env msg pl r = Inr r' \<and>
    distinct (map fst (MsgRoomPropPayload.PrivateProps pl)) \<and>
    (k, v) \<in> set (MsgRoomPropPayload.PrivateProps pl)"
  then have ne: "MsgRoomPropPayload.PrivateProps pl \<noteq> []"
    by auto
  from h ne have "privateProps r' = mergeEntries (MsgRoomPropPayload.PrivateProps pl) (privateProps r)"
    by (auto simp: msgRoomProp_def Let_def updateRoomInfo_def)
  moreover from h have "fmlookup (mergeEntries (MsgRoomPropPayload.PrivateProps pl) (privateProps r)) k =
        (if k |\<in>| fmdom (privateProps r) \<and> length v = 0 then None else Some v)"
    by (intro mergeEntries_lookup) simp_all
  ultimately show "fmlookup (privateProps r') k =
        (if k |\<in>| fmdom (privateProps r) \<and> length v = 0 then None else Some v)"
    by (simp only:)
next
  assume h: "isPlayer (heap r (Sender cmsg)) \<and>
    fmlookup (players r) (Client_ID (heap r (Sender cmsg))) = Some (Sender cmsg) \<and>
    msgClientProp env cmsg prps r = Inr r'' \<and>
    distinct (map fst prps) \<and> (k, v) \<in> set prps"
  then have ne: "prps \<noteq> []"
    by auto
  from h ne have "props (heap r'' (Sender cmsg)) = mergeEntries prps (props (heap r (Sender cmsg)))"
    by (auto simp: msgClientProp_def Let_def)
  moreover from h have "fmlookup (mergeEntries prps (props (heap r (Sender cmsg)))) k =
        (if k |\<in>| fmdom (props (heap r (Sender cmsg))) \<and> length v = 0 then None else Some v)"
    by (intro mergeEntries_lookup) simp_all
  ultimately show "fmlookup (props (heap r'' (Sender cmsg))) k =
        (if k |\<in>| fmdom (props (heap r (Sender cmsg))) \<and> length v = 0 then None else Some v)"
    by (simp only:)
qed

lemma evbuf_Client_Removed [simp]: "evbuf (Client_Removed cause c) = evbuf c"
  by (simp add: Client_Removed_def)

lemma ClientInfo_Client_Removed [simp]: "ClientInfo (Client_Removed cause c) = ClientInfo c"
  by (simp add: Client_Removed_def)

lemma if_Removed_fields [simp]:
  "Client_ID (if a = c then Client_Removed cause (h c) else h a) = Client_ID (h a)"
  "ClientInfo (if a = c then Client_Removed cause (h c) else h a) = ClientInfo (h a)"
  "evbuf (if a = c then Client_Removed cause (h c) else h a) = evbuf (h a)"
  by simp_all

lemma lenMap_0_iff: "lenMap m = 0 \<longleftrightarrow> fmdom m = {||}"
  by (simp add: lenMap_def)

lemma lenMap_fmdrop [simp]:
  "lenMap (fmdrop k m) = (if k |\<in>| fmdom m then lenMap m - 1 else lenMap m)"
  by (simp add: lenMap_def fcard_fminus_fsingleton_if)

lemma removePlayer_not_registered:
  "fmlookup (players r) (Client_ID (heap r c)) \<noteq> Some c \<Longrightarrow> removePlayer env c cause r = Inr r"
  by (simp add: removePlayer_def)

lemma removePlayer_last:
  assumes "fmlookup (players r) (Client_ID (heap r c)) = Some c"
    and "lenMap (fmdrop (Client_ID (heap r c)) (players r)) = 0"
    and "\<not> doneClosed r"
  shows "removePlayer env c cause r =
          Inr (r\<lparr>players := fmdrop (Client_ID (heap r c)) (players r),
                 masterOrder := remove1 (Client_ID (heap r c)) (masterOrder r),
                 heap := (heap r)(c := Client_Removed cause (heap r c)),
                 doneClosed := True\<rparr>)"
  using assms by (simp add: removePlayer_def Let_def)

lemma master_update_same: "master r = v \<Longrightarrow> r\<lparr>master := v\<rparr> = r"
  by auto

lemma removePlayer_unfold:
  assumes reg: "fmlookup (players r) (Client_ID (heap r c)) = Some c"
    and ne: "lenMap (fmdrop (Client_ID (heap r c)) (players r)) \<noteq> 0"
  shows "removePlayer env c cause r =
     (case master r of
        None \<Rightarrow> Inl NilDereference
      | Some m0 \<Rightarrow>
          if Client_ID (heap r m0) = Client_ID (heap r c) then
            (if remove1 (Client_ID (heap r c)) (masterOrder r) = [] then Inl IndexOutOfRange
             else case fmlookup (fmdrop (Client_ID (heap r c)) (players r))
                         (remove1 (Client_ID (heap r c)) (masterOrder r) ! 0) of
                    None \<Rightarrow> Inl NilDereference
                  | Some m \<Rightarrow> Inr (afterLeft env c cause m r))
          else Inr (afterLeft env c cause m0 r))"
  using reg ne
  by (simp add: removePlayer_def Let_def afterLeft_def master_update_same split: option.splits)

lemma removePlayer_remaining:
  assumes reg: "fmlookup (players r) (Client_ID (heap r c)) = Some c"
    and ne: "lenMap (fmdrop (Client_ID (heap r c)) (players r)) \<noteq> 0"
    and res: "removePlayer env c cause r = Inr r'"
  shows "\<exists>m0 m. master r = Some m0 \<and> r' = afterLeft env c cause m r \<and>
           (if Client_ID (heap r m0) = Client_ID (heap r c)
            then remove1 (Client_ID (heap r c)) (masterOrder r) \<noteq> [] \<and>
                 fmlookup (fmdrop (Client_ID (heap r c)) (players r))
                   (remove1 (Client_ID (heap r c)) (masterOrder r) ! 0) = Some m
            else m = m0)"
  using res unfolding removePlayer_unfold [OF reg ne]
  by (auto split: option.splits if_splits)

lemma afterLeft_fields:
  "doneClosed (afterLeft env c cause m r) = doneClosed r"
  "players (afterLeft env c cause m r) = fmdrop (Client_ID (heap r c)) (players r)"
  "watchers (afterLeft env c cause m r) = watchers r"
  "masterOrder (afterLeft env c cause m r) = remove1 (Client_ID (heap r c)) (masterOrder r)"
  "master (afterLeft env c cause m r) = Some m"
  "RoomInfo (afterLeft env c cause m r) =
     (RoomInfo r)\<lparr>Players := of_nat (lenMap (fmdrop (Client_ID (heap r c)) (players r)))\<rparr>"
  "lastRoomInfo (afterLeft env c cause m r) = RoomInfo (afterLeft env c cause m r)"
  "chRoomInfo (afterLeft env c cause m r)"
  "lastMsg (afterLeft env c cause m r) = fmdrop (Client_ID (heap r c)) (lastMsg r)"
  by (simp_all add: afterLeft_def Let_def updateRoomInfo_def removeLastMsg_def)

lemma afterLeft_evbuf:
  assumes "fmlookup (players (afterLeft env c cause m r)) k = Some a"
    and "\<forall>w. fmlookup (watchers r) w \<noteq> Some a"
  shows "evbuf (heap (afterLeft env c cause m r) a) =
           evbuf (heap r a) @ [NewEvLeft env (Client_ID (heap r c)) (Id (ClientInfo (heap r m))) cause]"
proof -
  from assms(1) have k: "fmlookup (fmdrop (Client_ID (heap r c)) (players r)) k = Some a"
    by (simp add: afterLeft_fields)
  then have "k |\<in>| fmdom (fmdrop (Client_ID (heap r c)) (players r))"
    by (rule fmdomI)
  with k have ex: "\<exists>k |\<in>| fmdom (fmdrop (Client_ID (heap r c)) (players r)).
      fmlookup (fmdrop (Client_ID (heap r c)) (players r)) k = Some a"
    by blast
  from assms(2) have nw: "\<not> (\<exists>w |\<in>| fmdom (watchers r). fmlookup (watchers r) w = Some a)"
    by blast
  show ?thesis
    using ex nw
    by (simp add: afterLeft_def Let_def updateRoomInfo_def removeLastMsg_def broadcast_def
        forClients_def Client_Send_def)
qed

lemma exRoom2_evbuf:
  "evbuf (heap exRoom2 0) = [NewEvJoined exEnv \<lparr>Id = ''M'', Props = []\<rparr>, NewEvJoined exEnv \<lparr>Id = ''A'', Props = []\<rparr>]"
  "evbuf (heap exRoom2 (Suc 0)) = [NewEvJoined exEnv \<lparr>Id = ''A'', Props = []\<rparr>]"
  by (simp_all add: exRoom2_def msgJoin_def exRoom1_fields exInfo_def NewPlayer_def newClient_def
      Let_def Client_ID_def alloc_def broadcast_def forClients_def writeLastMsg_def reply_def
      Client_Send_def updateRoomInfo_def word_le_nat_alt
      exRoom1_def exRoom0_eq msgCreate_def)

lemma exRoom1_lastRoomInfo:
  "lastRoomInfo exRoom1 = exInfo" "chRoomInfo exRoom1 = False"
  by (simp_all add: exRoom1_def exRoom0_eq msgCreate_def NewPlayer_def newClient_def Let_def
      Client_ID_def alloc_def broadcast_def forClients_def writeLastMsg_def reply_def Client_Send_def)

lemma exRoomGone_left:
  "msgLeave exEnv 0 ''bye'' exRoom1 = Inr exRoomGone"
  "removePlayer exEnv 0 ''bye'' exRoom1 = Inr exRoomGone"
  by (simp_all add: exRoomGone_def msgLeave_def removeClient_def exRoom1_fields removePlayer_def
      Client_ID_def Let_def)

lemma exRoomGone_fields:
  "players exRoomGone = fmdrop ''M'' (fmupd ''M'' 0 fmempty)"
  "masterOrder exRoomGone = []"
  "doneClosed exRoomGone"
  "RoomInfo exRoomGone = exInfo"
  "lastRoomInfo exRoomGone = exInfo"
  "chRoomInfo exRoomGone = False"
  "fmdom (lastMsg exRoomGone) = {|''M''|}"
  "evbuf (heap exRoomGone 0) = evbuf (heap exRoom1 0)"
  by (simp_all add: exRoomGone_def msgLeave_def removeClient_def exRoom1_fields removePlayer_def
      Client_ID_def Let_def exRoom1_lastRoomInfo)

lemma exRoomLeft_eq:
  "removePlayer exEnv 0 ''bye'' exRoom2 = Inr exRoomLeft"
  "exRoomLeft = afterLeft exEnv 0 ''bye'' 1 exRoom2"
proof -
  have reg: "fmlookup (players exRoom2) (Client_ID (heap exRoom2 0)) = Some 0"
    by (simp add: exRoom2_fields Client_ID_def)
  have ne: "lenMap (fmdrop (Client_ID (heap exRoom2 0)) (players exRoom2)) \<noteq> 0"
    by (simp add: exRoom2_fields Client_ID_def)
  have "removePlayer exEnv 0 ''bye'' exRoom2 = Inr (afterLeft exEnv 0 ''bye'' 1 exRoom2)"
    unfolding removePlayer_unfold [OF reg ne]
    by (simp add: exRoom2_fields Client_ID_def)
  then show "removePlayer exEnv 0 ''bye'' exRoom2 = Inr exRoomLeft"
    and "exRoomLeft = afterLeft exEnv 0 ''bye'' 1 exRoom2"
    by (simp_all add: exRoomLeft_def msgLeave_def removeClient_def exRoom2_fields)
qed

lemma exRoomLeft_fields:
  "players exRoomLeft = fmdrop ''M'' (fmupd ''A'' 1 (fmupd ''M'' 0 fmempty))"
  "masterOrder exRoomLeft = [''A'']"
  "master exRoomLeft = Some 1"
  "doneClosed exRoomLeft = False"
  "Players (RoomInfo exRoomLeft) = 1"
  "lastRoomInfo exRoomLeft = RoomInfo exRoomLeft"
  "chRoomInfo exRoomLeft"
  "fmdom (lastMsg exRoomLeft) = {|''A''|}"
  "evbuf (heap exRoomLeft (Suc 0)) = evbuf (heap exRoom2 (Suc 0)) @ [NewEvLeft exEnv ''M'' ''A'' ''bye'']"
  unfolding exRoomLeft_eq(2)
  by (simp_all add: afterLeft_fields exRoom2_fields Client_ID_def afterLeft_def Let_def
      updateRoomInfo_def removeLastMsg_def broadcast_def forClients_def Client_Send_def
      finsert_fminus_if)

text \<open>
  C7. When a client that is not the master sends \<^verbatim>\<open>MsgRoomProp\<close> to a room that has
  a master, the handler appends to the sender's event buffer the event
  \<^verbatim>\<open>EvPermissionDenied\<close> whose payload is the message's sequence number in three
  bytes followed by the message's payload, and changes nothing else: no other client is
  handed an event, and flags, search group, maximum of players, deadline and both props
  dicts are as before.
\<close>

theorem msgRoomProp_not_master:
  assumes "master r = Some m" and "Sender msg \<noteq> m"
  shows "msgRoomProp env msg pl r =
           Inr (r\<lparr>heap := (heap r)(Sender msg := (heap r (Sender msg))
                  \<lparr>evbuf := evbuf (heap r (Sender msg)) @
                     [RegularEvent EvTypePermissionDenied (put24 (SequenceNum msg) @ Payload msg)]\<rparr>)\<rparr>)"
  using assms
  by (simp add: msgRoomProp_def sendTo_def Client_Send_def NewEvPermissionDenied_def)

theorem msgRoomProp_not_master_witness:
  "master exRoom2 = Some 0 \<and> Sender exMsgA \<noteq> 0 \<and>
   msgRoomProp exEnv exMsgA exProps exRoom2 =
     Inr (exRoom2\<lparr>heap := (heap exRoom2)(1 := (heap exRoom2 1)
            \<lparr>evbuf := evbuf (heap exRoom2 1) @ [RegularEvent 129 [0, 0, 7, 9]]\<rparr>)\<rparr>)"
  using msgRoomProp_not_master [of exRoom2 0 exMsgA exEnv exProps]
  by (simp add: exRoom2_fields exMsgA_def EvTypePermissionDenied_def responseEvType_def put24_def)

text \<open>
  C1, at a room with master \<open>M\<close> and player \<open>A\<close>: \<open>A\<close>, who is not the master,
  sends \<^verbatim>\<open>MsgSwitchMaster\<close> with target \<open>A\<close>. The handler hands \<open>A\<close> the event
  \<^verbatim>\<open>EvPermissionDenied\<close> and then, the branch having no \<^verbatim>\<open>return\<close>, makes \<open>A\<close>
  the master, hands \<open>A\<close> \<^verbatim>\<open>EvSucceeded\<close> and broadcasts \<^verbatim>\<open>EvMasterSwitched\<close>.
\<close>

theorem msgSwitchMaster_not_master_switches:
  "master exRoom2 = Some 0 \<and> Sender exMsgA = 1 \<and>
   msgSwitchMaster exEnv exMsgA ''A'' exRoom2 = Inr exRoomSwitched \<and>
   master exRoomSwitched = Some 1 \<and>
   evbuf (heap exRoomSwitched 1) = evbuf (heap exRoom2 1) @
     [NewEvPermissionDenied exMsgA, NewEvSucceeded exMsgA, NewEvMasterSwitched exEnv ''A'' ''A''] \<and>
   evbuf (heap exRoomSwitched 0) = evbuf (heap exRoom2 0) @ [NewEvMasterSwitched exEnv ''A'' ''A'']"
  by (simp add: exRoomSwitched_def msgSwitchMaster_def exRoom2_fields exMsgA_def Let_def
      sendTo_def broadcast_def forClients_def Client_Send_def)

text \<open>
  C10. For a client \<open>c\<close> registered as a player: when \<open>c\<close> is the only player and
  \<^verbatim>\<open>done\<close> is still open, \<open>removePlayer\<close> deletes it from \<open>players\<close> and
  \<open>masterOrder\<close>, tells the client that it is removed, closes \<^verbatim>\<open>done\<close> and returns:
  room info, published room info, the notification channel, \<open>lastMsg\<close> and every event
  buffer are as before. When other players remain and the call returns, \<^verbatim>\<open>done\<close> is as
  before, \<open>RoomInfo.Players\<close> is the new number of players, the room info is published,
  the entry of \<open>c\<close> is removed from \<open>lastMsg\<close>, and every remaining player (that is
  not also registered as a watcher) has \<^verbatim>\<open>EvLeft\<close> appended to its event buffer.
\<close>

theorem removePlayer_last_player:
  "fmlookup (players r) (Client_ID (heap r c)) = Some c \<Longrightarrow>
   (fmdom (players r) = {|Client_ID (heap r c)|} \<and> \<not> doneClosed r \<longrightarrow>
      removePlayer env c cause r =
        Inr (r\<lparr>players := fmdrop (Client_ID (heap r c)) (players r),
               masterOrder := remove1 (Client_ID (heap r c)) (masterOrder r),
               heap := (heap r)(c := Client_Removed cause (heap r c)),
               doneClosed := True\<rparr>)) \<and>
   (fmdom (players r) \<noteq> {|Client_ID (heap r c)|} \<and> removePlayer env c cause r = Inr r' \<longrightarrow>
      doneClosed r' = doneClosed r \<and>
      Players (RoomInfo r') = of_nat (lenMap (players r')) \<and>
      lastRoomInfo r' = RoomInfo r' \<and> chRoomInfo r' \<and>
      lastMsg r' = fmdrop (Client_ID (heap r c)) (lastMsg r) \<and>
      (\<exists>m. master r' = Some m \<and>
        (\<forall>k a. fmlookup (players r') k = Some a \<and> (\<forall>w. fmlookup (watchers r') w \<noteq> Some a) \<longrightarrow>
           evbuf (heap r' a) = evbuf (heap r a) @
             [NewEvLeft env (Client_ID (heap r c)) (Id (ClientInfo (heap r m))) cause])))"
proof -
  assume reg: "fmlookup (players r) (Client_ID (heap r c)) = Some c"
  let ?cid = "Client_ID (heap r c)"
  have last: "removePlayer env c cause r =
        Inr (r\<lparr>players := fmdrop ?cid (players r),
               masterOrder := remove1 ?cid (masterOrder r),
               heap := (heap r)(c := Client_Removed cause (heap r c)),
               doneClosed := True\<rparr>)"
    if h: "fmdom (players r) = {|?cid|} \<and> \<not> doneClosed r"
  proof -
    from h have "fmdom (fmdrop ?cid (players r)) = {||}"
      by simp
    then have "lenMap (fmdrop ?cid (players r)) = 0"
      by (simp only: lenMap_0_iff)
    with reg h show ?thesis
      by (intro removePlayer_last) simp_all
  qed
  have rest: "doneClosed r' = doneClosed r \<and>
      Players (RoomInfo r') = of_nat (lenMap (players r')) \<and>
      lastRoomInfo r' = RoomInfo r' \<and> chRoomInfo r' \<and>
      lastMsg r' = fmdrop ?cid (lastMsg r) \<and>
      (\<exists>m. master r' = Some m \<and>
        (\<forall>k a. fmlookup (players r') k = Some a \<and> (\<forall>w. fmlookup (watchers r') w \<noteq> Some a) \<longrightarrow>
           evbuf (heap r' a) = evbuf (heap r a) @
             [NewEvLeft env ?cid (Id (ClientInfo (heap r m))) cause]))"
    if h: "fmdom (players r) \<noteq> {|?cid|} \<and> removePlayer env c cause r = Inr r'"
  proof -
    from reg have "?cid |\<in>| fmdom (players r)"
      by (rule fmdomI)
    with h have "fmdom (fmdrop ?cid (players r)) \<noteq> {||}"
      by auto
    then have ne: "lenMap (fmdrop ?cid (players r)) \<noteq> 0"
      by (simp only: lenMap_0_iff not_False_eq_True)
    from h have res: "removePlayer env c cause r = Inr r'"
      by simp
    from removePlayer_remaining [OF reg ne res] obtain m where r': "r' = afterLeft env c cause m r"
      by blast
    have "\<forall>k a. fmlookup (players r') k = Some a \<and> (\<forall>w. fmlookup (watchers r') w \<noteq> Some a) \<longrightarrow>
           evbuf (heap r' a) = evbuf (heap r a) @
             [NewEvLeft env ?cid (Id (ClientInfo (heap r m))) cause]"
      unfolding r' by (auto simp: afterLeft_fields intro: afterLeft_evbuf)
    then show ?thesis
      by (auto simp: r' afterLeft_fields)
  qed
  from last rest show ?thesis
    by blast
qed

theorem removePlayer_last_player_witness:
  "fmlookup (players exRoom1) (Client_ID (heap exRoom1 0)) = Some 0 \<and>
   fmdom (players exRoom1) = {|Client_ID (heap exRoom1 0)|} \<and> \<not> doneClosed exRoom1 \<and>
   removePlayer exEnv 0 ''bye'' exRoom1 = Inr exRoomGone \<and>
   fmdom (players exRoomGone) = {||} \<and> doneClosed exRoomGone \<and>
   RoomInfo exRoomGone = RoomInfo exRoom1 \<and> lastRoomInfo exRoomGone = lastRoomInfo exRoom1 \<and>
   chRoomInfo exRoomGone = chRoomInfo exRoom1 \<and> fmdom (lastMsg exRoomGone) = {|''M''|} \<and>
   evbuf (heap exRoomGone 0) = evbuf (heap exRoom1 0) \<and>
   fmlookup (players exRoom2) (Client_ID (heap exRoom2 0)) = Some 0 \<and>
   fmdom (players exRoom2) \<noteq> {|Client_ID (heap exRoom2 0)|} \<and>
   removePlayer exEnv 0 ''bye'' exRoom2 = Inr exRoomLeft \<and>
   \<not> doneClosed exRoomLeft \<and> Players (RoomInfo exRoomLeft) = 1 \<and>
   lastRoomInfo exRoomLeft = RoomInfo exRoomLeft \<and> chRoomInfo exRoomLeft \<and>
   fmdom (lastMsg exRoomLeft) = {|''A''|} \<and> master exRoomLeft = Some 1 \<and>
   evbuf (heap exRoomLeft 1) = evbuf (heap exRoom2 1) @ [NewEvLeft exEnv ''M'' ''A'' ''bye'']"
  using removePlayer_last_player [of exRoom1 0 exEnv "''bye''"]
    removePlayer_last_player [of exRoom2 0 exEnv "''bye''" exRoomLeft]
  by (simp add: exRoom1_fields exRoom2_fields Client_ID_def exRoom1_lastRoomInfo
      exRoomGone_left exRoomGone_fields exRoomLeft_eq(1) exRoomLeft_fields finsert_fminus_if)

end
